theory Spec2Isabelle
  imports Complex_Main "HOL-Library.Word"
begin

unbundle bit_operations_syntax

section \<open>Common Python values\<close>

text \<open>
  Exceptions of the Python sources that the modelled functions can raise.  A function that
  can raise returns \<open>py_error + 'a\<close>, with \<open>Inl\<close> for the exception.
\<close>

datatype py_error =
    FileNotFoundError
  | ValueError
  | PermissionError
  | OverflowError
  | ZeroDivisionError
  | IntegrityError
  | IsADirectoryError
  | SameFileError
  | OSError
  | WrappedException py_error

text \<open>
  A \<open>datetime\<close> is a count of microseconds since 0001-01-01T00:00:00, the resolution and
  the origin of Python's \<open>datetime\<close>.  \<open>datetime_max\<close> is 9999-12-31T23:59:59.999999
  (3652059 days).  Adding \<open>timedelta(seconds=n)\<close> raises OverflowError when the sum leaves
  the representable range.
\<close>

type_synonym datetime = int

definition datetime_max :: datetime where
  "datetime_max = 3652059 * 86400 * 1000000 - 1"

definition add_seconds :: "datetime \<Rightarrow> int \<Rightarrow> py_error + datetime" where
  "add_seconds t n =
     (let r = t + n * 1000000
      in if r < 0 \<or> datetime_max < r then Inl OverflowError else Inr r)"

text \<open>
  A Python float is an IEEE 754 double.  \<open>double x\<close> is the double nearest to the real \<open>x\<close>,
  ties to the even significand, for values in the normal range (no overflow, no
  subnormals): with \<open>e\<close> the binary exponent of \<open>x\<close>, the doubles around \<open>x\<close> are the
  multiples of \<open>2 ^ (e - 52)\<close>.  Every float operation of the sources is the exact
  operation followed by \<open>double\<close>.
\<close>

definition round_half_even :: "real \<Rightarrow> int" where
  "round_half_even r =
     (let f = \<lfloor>r\<rfloor>
      in if r - of_int f < 1 / 2 then f
         else if r - of_int f > 1 / 2 then f + 1
         else if even f then f else f + 1)"

definition double :: "real \<Rightarrow> real" where
  "double x =
     (if x = 0 then 0
      else (let e = \<lfloor>log 2 \<bar>x\<bar>\<rfloor>;
                u = 2 powr (of_int e - 52)
            in of_int (round_half_even (x / u)) * u))"

text \<open>
  The float literal \<open>0.7\<close>: the double nearest to 7/10.
\<close>

definition double_0_7 :: real where
  "double_0_7 = 3152519739159347 / 4503599627370496"

text \<open>
  The builtin \<open>sum\<close> over floats is the interpreter's, and the functions that call it take
  it as a parameter.  Up to CPython 3.11 it adds from left to right, starting from the int
  0, every addition rounded: \<open>float_sum\<close>.  Since CPython 3.12 it carries the rounding errors
  along in a compensation term, added at the end (Neumaier's summation): \<open>neumaier_sum\<close>.
\<close>

definition float_sum :: "real list \<Rightarrow> real" where
  "float_sum xs = foldl (\<lambda>acc x. double (acc + x)) 0 xs"

definition neumaier_add :: "real \<times> real \<Rightarrow> real \<Rightarrow> real \<times> real" where
  "neumaier_add fc x =
     (let f = fst fc; c = snd fc; t = double (f + x)
      in (t, if \<bar>f\<bar> \<ge> \<bar>x\<bar> then double (c + double (double (f - t) + x))
             else double (c + double (double (x - t) + f))))"

definition neumaier_sum :: "real list \<Rightarrow> real" where
  "neumaier_sum xs =
     (case xs of
        [] \<Rightarrow> 0
      | x # rest \<Rightarrow>
          (let fc = foldl neumaier_add (double (0 + x), 0) rest
           in if snd fc \<noteq> 0 then double (fst fc + snd fc) else fst fc))"

section \<open>daemon/auth.py: the mode manager\<close>

datatype SystemMode = MONITOR | INIT | UPDATE | EMERGENCY

record session =
  user :: string
  created :: datetime
  expires :: datetime

record mode_change =
  mc_timestamp :: datetime
  from_mode :: SystemMode
  to_mode :: SystemMode
  admin_user :: string
  timeout :: "int option"
  reason :: string

record AuthManager =
  current_mode :: SystemMode
  mode_start_time :: "datetime option"
  mode_timeout :: "int option"
  active_sessions :: "string \<rightharpoonup> session"
  mode_history :: "mode_change list"
  emergency_triggered :: bool
  emergency_reason :: string

text \<open>
  The messages returned next to the success flag.  The source returns Russian sentences;
  each constructor stands for one of them.
\<close>

datatype message =
    CannotEnterInitFrom SystemMode
  | InitModeOn
  | NotInInitMode
  | InitModeOff
  | CannotEnterUpdateEmergency
  | CannotEnterUpdateInit
  | UpdateModeExtended int
  | NoRightsForUpdate
  | UpdateModeOn int
  | NotInUpdateMode
  | UpdateModeOff
  | EmergencyActivated string
  | NotInEmergencyMode
  | NoRightsForEmergencyExit
  | EmergencyOff

definition init_auth :: AuthManager where
  "init_auth = \<lparr> current_mode = MONITOR, mode_start_time = None, mode_timeout = None,
                 active_sessions = Map.empty, mode_history = [],
                 emergency_triggered = False, emergency_reason = [] \<rparr>"

text \<open>
  \<open>_record_mode_change\<close>: append a record, keep the last 1000.
\<close>

definition record_mode_change ::
  "datetime \<Rightarrow> SystemMode \<Rightarrow> string \<Rightarrow> int option \<Rightarrow> string \<Rightarrow> AuthManager \<Rightarrow> AuthManager" where
  "record_mode_change now new_mode adm tmo rsn s =
     (let rec = \<lparr> mc_timestamp = now, from_mode = current_mode s, to_mode = new_mode,
                   admin_user = adm, timeout = tmo, reason = rsn \<rparr>;
          h = mode_history s @ [rec]
      in s\<lparr> mode_history := (if 1000 < length h then drop (length h - 1000) h else h) \<rparr>)"

text \<open>
  \<open>_verify_admin\<close>: the process runs as root (\<open>os.geteuid() == 0\<close>) and the name is one of
  \<open>root\<close>, \<open>admin\<close>.  The effective uid is a parameter.
\<close>

definition verify_admin :: "nat \<Rightarrow> string \<Rightarrow> bool" where
  "verify_admin euid adm = (if euid \<noteq> 0 then False else adm \<in> set [''root'', ''admin''])"

text \<open>
  \<open>_is_mode_expired\<close>: \<open>elapsed > mode_timeout\<close>, where \<open>elapsed\<close> is
  \<open>(now - start).total_seconds()\<close>, the float of the elapsed microseconds divided by
  \<open>10^6\<close>, and the timeout is an int, compared exactly.
\<close>

definition total_seconds :: "int \<Rightarrow> real" where
  "total_seconds microseconds = double (real_of_int microseconds / 1000000)"

definition is_mode_expired :: "datetime \<Rightarrow> AuthManager \<Rightarrow> bool" where
  "is_mode_expired now s =
     (case (mode_timeout s, mode_start_time s) of
        (Some t, Some st) \<Rightarrow> total_seconds (now - st) > real_of_int t
      | _ \<Rightarrow> False)"

definition exit_update_mode_internal ::
  "datetime \<Rightarrow> string \<Rightarrow> AuthManager \<Rightarrow> (bool \<times> message) \<times> AuthManager" where
  "exit_update_mode_internal now adm s =
     (let s1 = record_mode_change now MONITOR adm None [] s
      in ((True, UpdateModeOff),
          s1\<lparr> current_mode := MONITOR, mode_start_time := None, mode_timeout := None,
               active_sessions := Map.empty \<rparr>))"

definition get_current_mode :: "datetime \<Rightarrow> AuthManager \<Rightarrow> SystemMode \<times> AuthManager" where
  "get_current_mode now s =
     (let s1 = (if current_mode s = UPDATE
                then (if is_mode_expired now s
                      then snd (exit_update_mode_internal now ''auto'' s) else s)
                else s)
      in (current_mode s1, s1))"

definition enter_init_mode ::
  "datetime \<Rightarrow> string \<Rightarrow> AuthManager \<Rightarrow> (bool \<times> message) \<times> AuthManager" where
  "enter_init_mode now adm s =
     (if current_mode s \<noteq> MONITOR then ((False, CannotEnterInitFrom (current_mode s)), s)
      else let s1 = record_mode_change now INIT adm None [] s
           in ((True, InitModeOn),
               s1\<lparr> current_mode := INIT, mode_start_time := Some now, mode_timeout := None \<rparr>))"

definition exit_init_mode ::
  "datetime \<Rightarrow> string \<Rightarrow> AuthManager \<Rightarrow> (bool \<times> message) \<times> AuthManager" where
  "exit_init_mode now adm s =
     (if current_mode s \<noteq> INIT then ((False, NotInInitMode), s)
      else let s1 = record_mode_change now MONITOR adm None [] s
           in ((True, InitModeOff),
               s1\<lparr> current_mode := MONITOR, mode_start_time := None, mode_timeout := None \<rparr>))"

text \<open>
  \<open>_generate_session_token\<close>: the random token (\<open>secrets.token_hex(32)\<close>) is a parameter.
  Computing the expiry raises OverflowError before the session table is touched.
\<close>

definition generate_session_token ::
  "datetime \<Rightarrow> string \<Rightarrow> string \<Rightarrow> int \<Rightarrow> AuthManager \<Rightarrow> py_error + (string \<times> AuthManager)" where
  "generate_session_token now token adm tmo s =
     (case add_seconds now tmo of
        Inl e \<Rightarrow> Inl e
      | Inr ex \<Rightarrow>
          Inr (token,
               s\<lparr> active_sessions :=
                    (active_sessions s)(token \<mapsto> \<lparr> user = adm, created = now, expires = ex \<rparr>) \<rparr>))"

definition enter_update_mode ::
  "datetime \<Rightarrow> nat \<Rightarrow> string \<Rightarrow> string \<Rightarrow> int \<Rightarrow> AuthManager
    \<Rightarrow> py_error + ((bool \<times> message \<times> string option) \<times> AuthManager)" where
  "enter_update_mode now euid token adm tmo s =
     (if current_mode s = EMERGENCY then Inr ((False, CannotEnterUpdateEmergency, None), s)
      else if current_mode s = INIT then Inr ((False, CannotEnterUpdateInit, None), s)
      else if current_mode s = UPDATE
      then Inr ((True, UpdateModeExtended tmo, None),
                s\<lparr> mode_timeout := Some tmo, mode_start_time := Some now \<rparr>)
      else if \<not> verify_admin euid adm then Inr ((False, NoRightsForUpdate, None), s)
      else (case generate_session_token now token adm tmo s of
              Inl e \<Rightarrow> Inl e
            | Inr (session_token, s1) \<Rightarrow>
                (let s2 = record_mode_change now UPDATE adm (Some tmo) [] s1
                 in Inr ((True, UpdateModeOn tmo, Some session_token),
                         s2\<lparr> current_mode := UPDATE, mode_start_time := Some now,
                              mode_timeout := Some tmo \<rparr>))))"

definition exit_update_mode ::
  "datetime \<Rightarrow> string \<Rightarrow> AuthManager \<Rightarrow> (bool \<times> message) \<times> AuthManager" where
  "exit_update_mode now adm s =
     (if current_mode s \<noteq> UPDATE then ((False, NotInUpdateMode), s)
      else exit_update_mode_internal now adm s)"

definition enter_emergency_mode ::
  "datetime \<Rightarrow> string \<Rightarrow> AuthManager \<Rightarrow> (bool \<times> message) \<times> AuthManager" where
  "enter_emergency_mode now rsn s =
     (let s1 = record_mode_change now EMERGENCY ''system'' None rsn s;
          s2 = (if current_mode s1 = UPDATE
                then snd (exit_update_mode_internal now ''system'' s1) else s1)
      in ((True, EmergencyActivated rsn),
          s2\<lparr> current_mode := EMERGENCY, mode_start_time := Some now, mode_timeout := None,
               emergency_triggered := True, emergency_reason := rsn \<rparr>))"

definition exit_emergency_mode ::
  "datetime \<Rightarrow> nat \<Rightarrow> string \<Rightarrow> AuthManager \<Rightarrow> (bool \<times> message) \<times> AuthManager" where
  "exit_emergency_mode now euid adm s =
     (if current_mode s \<noteq> EMERGENCY then ((False, NotInEmergencyMode), s)
      else if \<not> verify_admin euid adm then ((False, NoRightsForEmergencyExit), s)
      else let s1 = record_mode_change now MONITOR adm None [] s
           in ((True, EmergencyOff),
               s1\<lparr> current_mode := MONITOR, mode_start_time := None, mode_timeout := None,
                    emergency_triggered := False, emergency_reason := [] \<rparr>))"

text \<open>
  A run of mode reads at the given instants, each read working on the state the previous
  one left.
\<close>

fun reads :: "datetime list \<Rightarrow> AuthManager \<Rightarrow> AuthManager" where
  "reads [] s = s"
| "reads (t # ts) s = reads ts (snd (get_current_mode t s))"


section \<open>Files\<close>

text \<open>
  The file system as the daemon sees it: a map from paths to nodes.  A regular file has its
  permission bits (\<open>st_mode\<close>) and its bytes.  Directories on the way to a path are not
  modelled.  A process with effective uid 0 passes every permission check; any other process
  is checked against the owner bits.
\<close>

type_synonym byte = "8 word"

datatype fs_node = RegularFile int "byte list" | Directory

type_synonym filesystem = "string \<rightharpoonup> fs_node"

definition S_IRUSR :: int where "S_IRUSR = 256"
definition S_IWUSR :: int where "S_IWUSR = 128"
definition S_IWGRP :: int where "S_IWGRP = 16"
definition S_IWOTH :: int where "S_IWOTH = 2"

definition can_read :: "nat \<Rightarrow> int \<Rightarrow> bool" where
  "can_read euid m = (euid = 0 \<or> m AND S_IRUSR \<noteq> 0)"


section \<open>daemon/integrity_engine.py\<close>

datatype ChangeType =
  NO_CHANGE | ALLOWED_CHANGE | UNAUTHORIZED_CHANGE | SUSPICIOUS_CHANGE | CRITICAL_CHANGE

text \<open>
  The messages of a check result; the numbers are those the source formats into the text.
\<close>

datatype check_message =
    IntegrityConfirmed
  | AllowedInUpdateMode
  | FileDeletedOrUnavailable
  | CriticalMessage real real
  | SuspiciousMessage real real
  | UnauthorizedMessage real
  | UnknownChangeType

record IntegrityCheckResult =
  file_path :: string
  change_type :: ChangeType
  blocks_total :: nat
  blocks_changed :: nat
  change_percent :: real
  current_hashes :: "string list"
  reference_hashes :: "string list"
  changed_block_indices :: "nat list"
  entropy :: real
  message :: check_message

record ModificationEvent =
  ev_file_path :: string
  ev_timestamp :: datetime
  ev_blocks_changed :: nat
  ev_blocks_total :: nat
  ev_change_percent :: real
  ev_entropy :: real

text \<open>
  The thresholds dictionary.  A float is the real it denotes; comparisons are exact, and
  the float operations round with \<open>double\<close> where the code rounds (the change percent, the
  means and the product of the detection rule, the elapsed seconds).  The entropy sum is
  taken in exact arithmetic.
\<close>

record thresholds =
  files_count :: int
  time_window :: int
  block_change_percent :: real
  entropy_threshold :: real

record IntegrityEngine =
  block_size :: nat
  ransomware_thresholds :: thresholds
  modification_history :: "ModificationEvent list"

definition default_thresholds :: thresholds where
  "default_thresholds =
     \<lparr> files_count = 10, time_window = 10, block_change_percent = 70,
       entropy_threshold = 7.5 \<rparr>"

definition init_engine :: "nat \<Rightarrow> thresholds \<Rightarrow> IntegrityEngine" where
  "init_engine bs th =
     \<lparr> block_size = bs, ransomware_thresholds = th, modification_history = [] \<rparr>"

text \<open>
  \<open>deque(maxlen=1000).append\<close>: a full deque drops its oldest element.
\<close>

definition deque_append :: "nat \<Rightarrow> 'a list \<Rightarrow> 'a \<Rightarrow> 'a list" where
  "deque_append maxlen d x =
     (if maxlen = 0 then [] else if length d \<ge> maxlen then tl d @ [x] else d @ [x])"

text \<open>
  The read loop of \<open>compute_file_hashes\<close>: read \<open>block_size\<close> bytes until a read returns
  nothing.
\<close>

function read_blocks :: "nat \<Rightarrow> byte list \<Rightarrow> byte list list" where
  "read_blocks n xs = (if take n xs = [] then [] else take n xs # read_blocks n (drop n xs))"
  by pat_completeness auto
termination
  by (relation "measure (\<lambda>(n, xs). length xs)") auto

declare read_blocks.simps [simp del]

text \<open>
  \<open>compute_file_hashes\<close>; the digest function (\<open>hashlib.sha256\<close>, hex encoded) is a
  parameter.
\<close>

definition compute_file_hashes ::
  "(byte list \<Rightarrow> string) \<Rightarrow> filesystem \<Rightarrow> nat \<Rightarrow> IntegrityEngine \<Rightarrow> string
     \<Rightarrow> py_error + (string list \<times> nat)" where
  "compute_file_hashes sha256 fs euid e p =
     (case fs p of
        None \<Rightarrow> Inl FileNotFoundError
      | Some Directory \<Rightarrow> Inl ValueError
      | Some (RegularFile m c) \<Rightarrow>
          if \<not> can_read euid m then Inl PermissionError
          else Inr (map sha256 (read_blocks (block_size e) c), length c))"

definition compare_hashes :: "string list \<Rightarrow> string list \<Rightarrow> nat list \<times> real" where
  "compare_hashes cur ref =
     (let max_blocks = max (length cur) (length ref);
          min_blocks = min (length cur) (length ref);
          changed_indices =
            filter (\<lambda>i. cur ! i \<noteq> ref ! i) [0..<min_blocks]
            @ (if length cur \<noteq> length ref then [min_blocks..<max_blocks] else []);
          change_percent =
            (if max_blocks > 0
             then double (double (real (length changed_indices) / real max_blocks) * 100)
             else 0)
      in (changed_indices, change_percent))"

text \<open>
  The two loops of \<open>calculate_entropy\<close>: counting the bytes into a table of 256 counters,
  then summing \<open>- p * log2 p\<close> over the counters that are not zero.
\<close>

definition byte_counts :: "byte list \<Rightarrow> nat list" where
  "byte_counts data =
     foldl (\<lambda>bc b. bc[unat b := bc ! unat b + 1]) (replicate 256 0) data"

definition shannon :: "byte list \<Rightarrow> real" where
  "shannon data =
     foldl (\<lambda>en c. if c > 0
                    then en - (real c / real (length data)) * log 2 (real c / real (length data))
                    else en)
           0 (byte_counts data)"

definition calculate_entropy :: "filesystem \<Rightarrow> nat \<Rightarrow> string \<Rightarrow> nat \<Rightarrow> real" where
  "calculate_entropy fs euid p sample_size =
     (case fs p of
        None \<Rightarrow> 0
      | Some Directory \<Rightarrow> 0
      | Some (RegularFile m c) \<Rightarrow>
          (let read_size = min sample_size (length c)
           in if read_size = 0 then 0
              else if \<not> can_read euid m then 0
              else (let data = take read_size c
                    in if data = [] then 0 else shannon data)))"

definition classify_change :: "IntegrityEngine \<Rightarrow> real \<Rightarrow> real \<Rightarrow> ChangeType" where
  "classify_change e cp en =
     (let block_threshold = block_change_percent (ransomware_thresholds e);
          entropy_thr = entropy_threshold (ransomware_thresholds e)
      in if cp \<ge> block_threshold \<and> en \<ge> entropy_thr then CRITICAL_CHANGE
         else if cp \<ge> block_threshold \<or> en \<ge> entropy_thr then SUSPICIOUS_CHANGE
         else UNAUTHORIZED_CHANGE)"

definition get_change_message :: "ChangeType \<Rightarrow> real \<Rightarrow> real \<Rightarrow> check_message" where
  "get_change_message ct cp en =
     (if ct = CRITICAL_CHANGE then CriticalMessage cp en
      else if ct = SUSPICIOUS_CHANGE then SuspiciousMessage cp en
      else if ct = UNAUTHORIZED_CHANGE then UnauthorizedMessage cp
      else UnknownChangeType)"

definition check_integrity ::
  "(byte list \<Rightarrow> string) \<Rightarrow> filesystem \<Rightarrow> nat \<Rightarrow> datetime \<Rightarrow> string \<Rightarrow> string list \<Rightarrow> bool
     \<Rightarrow> IntegrityEngine \<Rightarrow> py_error + (IntegrityCheckResult \<times> IntegrityEngine)" where
  "check_integrity sha256 fs euid now p ref is_update_mode e =
     (case compute_file_hashes sha256 fs euid e p of
        Inl FileNotFoundError \<Rightarrow>
          Inr (\<lparr> file_path = p, change_type = CRITICAL_CHANGE, blocks_total = 0,
                 blocks_changed = 0, change_percent = 0, current_hashes = [],
                 reference_hashes = ref, changed_block_indices = [], entropy = 0,
                 message = FileDeletedOrUnavailable \<rparr>, e)
      | Inl err \<Rightarrow> Inl (WrappedException err)
      | Inr (cur, file_size) \<Rightarrow>
          (let changed_indices = fst (compare_hashes cur ref);
               cp = snd (compare_hashes cur ref);
               total = length cur;
               changed = length changed_indices
           in if changed = 0
              then Inr (\<lparr> file_path = p, change_type = NO_CHANGE, blocks_total = total,
                          blocks_changed = 0, change_percent = 0, current_hashes = cur,
                          reference_hashes = ref, changed_block_indices = [], entropy = 0,
                          message = IntegrityConfirmed \<rparr>, e)
              else if is_update_mode
              then Inr (\<lparr> file_path = p, change_type = ALLOWED_CHANGE, blocks_total = total,
                          blocks_changed = changed, change_percent = cp, current_hashes = cur,
                          reference_hashes = ref, changed_block_indices = changed_indices,
                          entropy = 0, message = AllowedInUpdateMode \<rparr>, e)
              else (let en = calculate_entropy fs euid p 1048576;
                        mod_event = \<lparr> ev_file_path = p, ev_timestamp = now,
                                      ev_blocks_changed = changed, ev_blocks_total = total,
                                      ev_change_percent = cp, ev_entropy = en \<rparr>;
                        e1 = e\<lparr> modification_history :=
                                  deque_append 1000 (modification_history e) mod_event \<rparr>;
                        ct = classify_change e1 cp en
                    in Inr (\<lparr> file_path = p, change_type = ct, blocks_total = total,
                              blocks_changed = changed, change_percent = cp,
                              current_hashes = cur, reference_hashes = ref,
                              changed_block_indices = changed_indices, entropy = en,
                              message = get_change_message ct cp en \<rparr>, e1))))"

text \<open>
  \<open>detect_ransomware_pattern\<close>.  The details dictionary is a record; the empty dictionary
  of the early return is \<open>None\<close>.  The two means are float divisions of the builtin sum
  \<open>py_sum\<close> by the count, and \<open>files_count * 0.7\<close> is a float product.
\<close>

record attack_details =
  files_affected :: nat
  time_window_seconds :: int
  avg_change_percent :: real
  avg_entropy :: real
  critical_changes :: nat
  affected_files :: "string list"
  detection_time :: datetime

definition detect_ransomware_pattern ::
  "(real list \<Rightarrow> real) \<Rightarrow> datetime \<Rightarrow> int option \<Rightarrow> IntegrityEngine
     \<Rightarrow> py_error + (bool \<times> attack_details option)" where
  "detect_ransomware_pattern py_sum now tw_opt e =
     (let th = ransomware_thresholds e;
          tw = (case tw_opt of None \<Rightarrow> time_window th | Some t \<Rightarrow> t)
      in case add_seconds now (- tw) of
           Inl err \<Rightarrow> Inl err
         | Inr threshold_time \<Rightarrow>
             (let recent_events =
                    filter (\<lambda>ev. ev_timestamp ev \<ge> threshold_time) (modification_history e)
              in if int (length recent_events) < files_count th then Inr (False, None)
                 else if length recent_events = 0 then Inl ZeroDivisionError
                 else (let n = length recent_events;
                           avg_cp = double (py_sum (map ev_change_percent recent_events)
                                            / real n);
                           avg_en = double (py_sum (map ev_entropy recent_events) / real n);
                           crit = length (filter (\<lambda>ev. ev_change_percent ev
                                                        \<ge> block_change_percent th
                                                   \<and> ev_entropy ev \<ge> entropy_threshold th)
                                            recent_events);
                           is_attack = (int n \<ge> files_count th
                                        \<and> avg_cp \<ge> block_change_percent th
                                        \<and> real crit \<ge> double (real n * double_0_7))
                       in Inr (is_attack,
                               Some \<lparr> files_affected = n, time_window_seconds = tw,
                                      avg_change_percent = avg_cp, avg_entropy = avg_en,
                                      critical_changes = crit,
                                      affected_files = map ev_file_path recent_events,
                                      detection_time = now \<rparr>))))"

text \<open>
  The detection rule in the specification's words: the events of the window, and the three
  conditions over them.  The mean is the mean of at least one event, \<open>exact_mean\<close> when
  taken exactly and \<open>float_mean\<close> when computed in floats.
\<close>

definition exact_mean :: "real list \<Rightarrow> real" where
  "exact_mean xs = sum_list xs / real (length xs)"

definition float_mean :: "(real list \<Rightarrow> real) \<Rightarrow> real list \<Rightarrow> real" where
  "float_mean py_sum xs = double (py_sum xs / real (length xs))"

definition window_events :: "datetime \<Rightarrow> int \<Rightarrow> IntegrityEngine \<Rightarrow> ModificationEvent list" where
  "window_events now tw e =
     filter (\<lambda>ev. now - tw * 1000000 \<le> ev_timestamp ev) (modification_history e)"

definition spec_ransomware_positive ::
  "(real list \<Rightarrow> real) \<Rightarrow> datetime \<Rightarrow> int \<Rightarrow> IntegrityEngine \<Rightarrow> bool" where
  "spec_ransomware_positive mean now tw e =
     (let th = ransomware_thresholds e;
          evs = window_events now tw e;
          n = length evs
      in int n \<ge> files_count th
         \<and> n > 0 \<and> mean (map ev_change_percent evs) \<ge> block_change_percent th
         \<and> real (length (filter (\<lambda>ev. ev_change_percent ev \<ge> block_change_percent th
                                       \<and> ev_entropy ev \<ge> entropy_threshold th) evs))
             \<ge> 0.7 * real n)"

text \<open>
  The start of the window, \<open>now - timedelta(seconds=time_window)\<close>, is a datetime.
\<close>

definition window_representable :: "datetime \<Rightarrow> int \<Rightarrow> bool" where
  "window_representable now tw =
     (0 \<le> now - tw * 1000000 \<and> now - tw * 1000000 \<le> datetime_max)"

section \<open>daemon/recovery.py: restoring from a backup\<close>

datatype RecoveryMethod = BACKUP_FULL | BACKUP_BLOCKS | ROLLBACK | NONE




text \<open>
  \<open>_lock_file\<close> and \<open>_unlock_file\<close> change the permission bits of an existing file and
  swallow every error.  The immutable attribute is not modelled.
\<close>

definition lock_file :: "filesystem \<Rightarrow> string \<Rightarrow> filesystem" where
  "lock_file fs p =
     (case fs p of
        Some (RegularFile m c) \<Rightarrow>
          fs(p \<mapsto> RegularFile (m AND NOT S_IWUSR AND NOT S_IWGRP AND NOT S_IWOTH) c)
      | _ \<Rightarrow> fs)"


definition chmod :: "filesystem \<Rightarrow> string \<Rightarrow> int \<Rightarrow> filesystem" where
  "chmod fs p m =
     (case fs p of Some (RegularFile m0 c) \<Rightarrow> fs(p \<mapsto> RegularFile m c) | _ \<Rightarrow> fs)"










definition file_bytes :: "filesystem \<Rightarrow> string \<Rightarrow> byte list option" where
  "file_bytes fs p = (case fs p of Some (RegularFile m c) \<Rightarrow> Some c | _ \<Rightarrow> None)"


section \<open>daemon/hash_storage.py: the baseline store\<close>

text \<open>
  The two tables of the SQLite database, each a list of rows in insertion order, with the
  AUTOINCREMENT counters of \<open>sqlite_sequence\<close>.  \<open>foreign_keys\<close> is the connection's
  \<open>PRAGMA foreign_keys\<close>: SQLite enforces \<open>FOREIGN KEY ... ON DELETE CASCADE\<close> only on a
  connection that has switched it on, and a new connection has it off.  Timestamps are
  datetimes (the source stores their ISO text).  I/O failures of the database are not
  modelled; the constraint violations are.
\<close>

record file_row =
  fr_id :: int
  fr_file_path :: string
  fr_file_size :: int
  fr_block_size :: int
  fr_blocks_count :: int
  fr_created_at :: datetime
  fr_updated_at :: datetime
  fr_is_trusted :: int
  fr_backup_path :: "string option"

record hash_row =
  hr_id :: int
  hr_file_id :: int
  hr_block_index :: int
  hr_hash_value :: string

record database =
  files :: "file_row list"
  block_hashes :: "hash_row list"
  files_seq :: int
  block_hashes_seq :: int
  foreign_keys :: bool

record FileRecord =
  rec_file_path :: string
  rec_file_size :: int
  rec_block_size :: int
  rec_blocks_count :: int
  rec_block_hashes :: "string list"
  rec_created_at :: datetime
  rec_updated_at :: datetime
  rec_is_trusted :: bool
  rec_backup_path :: "string option"

text \<open>
  \<open>_init_database\<close> on a new file: \<open>sqlite3.connect\<close>, the two \<open>CREATE TABLE\<close>
  statements, and no \<open>PRAGMA foreign_keys\<close>.
\<close>

definition init_database :: database where
  "init_database =
     \<lparr> files = [], block_hashes = [], files_seq = 0, block_hashes_seq = 0,
       foreign_keys = False \<rparr>"

text \<open>
  The rowid of an AUTOINCREMENT insert: one more than the largest rowid the table has
  ever held.
\<close>

definition next_rowid :: "int \<Rightarrow> int list \<Rightarrow> int" where
  "next_rowid seq ids = max seq (foldr max ids 0) + 1"

text \<open>
  \<open>DELETE FROM files WHERE file_path = ?\<close>, with the cascade to \<open>block_hashes\<close> when
  foreign keys are enforced.  The same deletion is what \<open>INSERT OR REPLACE\<close> does to a row
  in conflict on \<open>file_path\<close>.
\<close>

definition delete_files_where_path :: "string \<Rightarrow> database \<Rightarrow> database" where
  "delete_files_where_path p db =
     (let victims = map fr_id (filter (\<lambda>r. fr_file_path r = p) (files db))
      in db\<lparr> files := filter (\<lambda>r. fr_file_path r \<noteq> p) (files db),
              block_hashes :=
                (if foreign_keys db
                 then filter (\<lambda>h. hr_file_id h \<notin> set victims) (block_hashes db)
                 else block_hashes db) \<rparr>)"

definition delete_block_hashes_where_file_id :: "int \<Rightarrow> database \<Rightarrow> database" where
  "delete_block_hashes_where_file_id fid db =
     db\<lparr> block_hashes := filter (\<lambda>h. hr_file_id h \<noteq> fid) (block_hashes db) \<rparr>"

text \<open>
  \<open>INSERT INTO block_hashes (file_id, block_index, hash_value)\<close>: the pair
  \<open>(file_id, block_index)\<close> is unique, and with foreign keys enforced the file row must
  exist.
\<close>

definition insert_block_hash :: "int \<Rightarrow> int \<Rightarrow> string \<Rightarrow> database \<Rightarrow> py_error + database" where
  "insert_block_hash fid idx h db =
     (if list_ex (\<lambda>r. hr_file_id r = fid \<and> hr_block_index r = idx) (block_hashes db)
      then Inl IntegrityError
      else if foreign_keys db \<and> \<not> list_ex (\<lambda>r. fr_id r = fid) (files db)
      then Inl IntegrityError
      else (let rid = next_rowid (block_hashes_seq db) (map hr_id (block_hashes db))
            in Inr (db\<lparr> block_hashes :=
                           block_hashes db
                           @ [\<lparr> hr_id = rid, hr_file_id = fid, hr_block_index = idx,
                                hr_hash_value = h \<rparr>],
                         block_hashes_seq := rid \<rparr>)))"

text \<open>
  The loop \<open>for block_index, hash_value in enumerate(block_hashes)\<close>, from index \<open>k\<close>.
\<close>

fun insert_block_hashes :: "int \<Rightarrow> nat \<Rightarrow> string list \<Rightarrow> database \<Rightarrow> py_error + database" where
  "insert_block_hashes fid k [] db = Inr db"
| "insert_block_hashes fid k (h # hs) db =
     (case insert_block_hash fid (int k) h db of
        Inl e \<Rightarrow> Inl e
      | Inr db1 \<Rightarrow> insert_block_hashes fid (Suc k) hs db1)"

text \<open>
  An \<open>INTEGER\<close> of SQLite is a signed 64-bit integer.  Binding a Python int outside that
  range to a parameter raises OverflowError before the statement runs; it is not an
  \<open>sqlite3.Error\<close>, so no handler of the store catches it.
\<close>

definition sqlite_integer :: "int \<Rightarrow> bool" where
  "sqlite_integer v = (- (2 ^ 63) \<le> v \<and> v < 2 ^ 63)"

text \<open>
  \<open>add_file\<close>.  On an \<open>sqlite3.Error\<close> the transaction is rolled back and an exception
  raised: the store stays as it was.
\<close>

definition add_file ::
  "datetime \<Rightarrow> string \<Rightarrow> int \<Rightarrow> int \<Rightarrow> string list \<Rightarrow> string option \<Rightarrow> database
     \<Rightarrow> py_error + (bool \<times> database)" where
  "add_file now p fsize bsize hashes backup db =
     (if \<not> (sqlite_integer fsize \<and> sqlite_integer bsize) then Inl OverflowError
      else
      let blocks_count = int (length hashes);
          file_id = next_rowid (files_seq db) (map fr_id (files db));
          db1 = delete_files_where_path p db;
          db2 = db1\<lparr> files :=
                       files db1
                       @ [\<lparr> fr_id = file_id, fr_file_path = p, fr_file_size = fsize,
                            fr_block_size = bsize, fr_blocks_count = blocks_count,
                            fr_created_at = now, fr_updated_at = now, fr_is_trusted = 1,
                            fr_backup_path = backup \<rparr>],
                     files_seq := file_id \<rparr>;
          db3 = delete_block_hashes_where_file_id file_id db2
      in case insert_block_hashes file_id 0 hashes db3 of
           Inl e \<Rightarrow> Inl (WrappedException e)
         | Inr db4 \<Rightarrow> Inr (True, db4))"

definition get_file :: "string \<Rightarrow> database \<Rightarrow> FileRecord option" where
  "get_file p db =
     (case filter (\<lambda>r. fr_file_path r = p) (files db) of
        [] \<Rightarrow> None
      | row # _ \<Rightarrow>
          Some \<lparr> rec_file_path = fr_file_path row, rec_file_size = fr_file_size row,
                 rec_block_size = fr_block_size row, rec_blocks_count = fr_blocks_count row,
                 rec_block_hashes =
                   map hr_hash_value
                     (sort_key hr_block_index
                        (filter (\<lambda>h. hr_file_id h = fr_id row) (block_hashes db))),
                 rec_created_at = fr_created_at row, rec_updated_at = fr_updated_at row,
                 rec_is_trusted = (fr_is_trusted row \<noteq> 0),
                 rec_backup_path = fr_backup_path row \<rparr>)"

definition update_file ::
  "datetime \<Rightarrow> string \<Rightarrow> int \<Rightarrow> string list \<Rightarrow> string option \<Rightarrow> database
     \<Rightarrow> py_error + (bool \<times> database)" where
  "update_file now p fsize hashes backup db =
     (case filter (\<lambda>r. fr_file_path r = p) (files db) of
        [] \<Rightarrow> Inr (False, db)
      | row # _ \<Rightarrow>
          if \<not> sqlite_integer fsize then Inl OverflowError
          else
          (let file_id = fr_id row;
               blocks_count = int (length hashes);
               db1 = db\<lparr> files :=
                            map (\<lambda>r. if fr_id r = file_id
                                      then r\<lparr> fr_file_size := fsize,
                                             fr_blocks_count := blocks_count,
                                             fr_updated_at := now,
                                             fr_backup_path := backup \<rparr>
                                      else r)
                                (files db) \<rparr>;
               db2 = delete_block_hashes_where_file_id file_id db1
           in case insert_block_hashes file_id 0 hashes db2 of
                Inl e \<Rightarrow> Inl (WrappedException e)
              | Inr db3 \<Rightarrow> Inr (True, db3)))"

definition remove_file :: "string \<Rightarrow> database \<Rightarrow> bool \<times> database" where
  "remove_file p db =
     (let rowcount = length (filter (\<lambda>r. fr_file_path r = p) (files db))
      in (rowcount > 0, delete_files_where_path p db))"

definition set_trust_status :: "string \<Rightarrow> bool \<Rightarrow> database \<Rightarrow> bool \<times> database" where
  "set_trust_status p is_trusted db =
     (let rowcount = length (filter (\<lambda>r. fr_file_path r = p) (files db))
      in (rowcount > 0,
          db\<lparr> files :=
                map (\<lambda>r. if fr_file_path r = p
                          then r\<lparr> fr_is_trusted := (if is_trusted then 1 else 0) \<rparr> else r)
                    (files db) \<rparr>))"

text \<open>
  The block-hash rows that belong to the file rows of a path.
\<close>

definition block_hashes_of :: "string \<Rightarrow> database \<Rightarrow> database \<Rightarrow> hash_row list" where
  "block_hashes_of p before after =
     filter (\<lambda>h. hr_file_id h
                   \<in> set (map fr_id (filter (\<lambda>r. fr_file_path r = p) (files before))))
            (block_hashes after)"

text \<open>
  A store after one \<open>add_file\<close> on a new database.
\<close>

definition one_file_db :: database where
  "one_file_db =
     snd (projr (add_file 1 ''/etc/passwd'' 10 65536 [''h0'', ''h1''] None init_database))"

text \<open>
  The summand of the entropy loop for a counter \<open>c\<close> out of \<open>n\<close> bytes.
\<close>

definition plogp :: "nat \<Rightarrow> nat \<Rightarrow> real" where
  "plogp n c = (if c > 0 then - (real c / real n) * log 2 (real c / real n) else 0)"

text \<open>
  An engine whose window holds two events of fully rewritten, high-entropy files.
\<close>

definition burst_engine :: IntegrityEngine where
  "burst_engine =
     \<lparr> block_size = 4,
       ransomware_thresholds =
         \<lparr> files_count = 2, time_window = 10, block_change_percent = 70,
           entropy_threshold = 7.5 \<rparr>,
       modification_history =
         [\<lparr> ev_file_path = ''/a'', ev_timestamp = 100000000, ev_blocks_changed = 1,
             ev_blocks_total = 1, ev_change_percent = 100, ev_entropy = 7.9 \<rparr>,
          \<lparr> ev_file_path = ''/b'', ev_timestamp = 101000000, ev_blocks_changed = 1,
             ev_blocks_total = 1, ev_change_percent = 100, ev_entropy = 7.9 \<rparr>] \<rparr>"

text \<open>
  An engine with the default thresholds whose window holds ten events of high entropy:
  eight files with 7 of 10 blocks changed, one with 83 of 100 and one with 57 of 100, for
  which \<open>compare_hashes\<close> has recorded the floats 70.0, 83.0 and \<open>57 / 100 * 100\<close>, which is
  56.99999999999999, the double next below 57.
\<close>

definition recorded_event :: "datetime \<Rightarrow> nat \<Rightarrow> nat \<Rightarrow> real \<Rightarrow> ModificationEvent" where
  "recorded_event t changed blocks cp =
     \<lparr> ev_file_path = ''/data'', ev_timestamp = t, ev_blocks_changed = changed,
       ev_blocks_total = blocks, ev_change_percent = cp, ev_entropy = 7.9 \<rparr>"

definition rounding_engine :: IntegrityEngine where
  "rounding_engine =
     \<lparr> block_size = 4,
       ransomware_thresholds = default_thresholds,
       modification_history =
         [recorded_event 100000000 7 10 70, recorded_event 100000001 7 10 70,
          recorded_event 100000002 7 10 70, recorded_event 100000003 7 10 70,
          recorded_event 100000004 7 10 70, recorded_event 100000005 7 10 70,
          recorded_event 100000006 7 10 70, recorded_event 100000007 7 10 70,
          recorded_event 100000008 83 100 83,
          recorded_event 100000009 57 100 (57 - 1 / 2 ^ 47)] \<rparr>"

section \<open>Properties of the rounding to a double\<close>

lemma round_half_even_error: "\<bar>of_int (round_half_even r) - r\<bar> \<le> 1 / 2"
proof -
  have "of_int \<lfloor>r\<rfloor> \<le> r" "r < of_int \<lfloor>r\<rfloor> + 1" by linarith+
  then show ?thesis
    by (auto simp: round_half_even_def Let_def)
qed

lemma round_half_even_of_int: "round_half_even (of_int n) = n"
  by (simp add: round_half_even_def)

lemma double_unit_pos: "0 < (2::real) powr y"
  by simp

lemma double_error_exponent:
  assumes "x \<noteq> 0"
  shows "\<bar>double x - x\<bar> \<le> 2 powr (of_int \<lfloor>log 2 \<bar>x\<bar>\<rfloor> - 53)"
proof -
  define u :: real where "u = 2 powr (of_int \<lfloor>log 2 \<bar>x\<bar>\<rfloor> - 52)"
  have u: "0 < u" by (simp add: u_def)
  have d: "double x = of_int (round_half_even (x / u)) * u"
    using assms by (simp add: double_def Let_def u_def)
  have "double x - x = (of_int (round_half_even (x / u)) - x / u) * u"
    using u by (simp add: d field_simps)
  then have "\<bar>double x - x\<bar> = \<bar>of_int (round_half_even (x / u)) - x / u\<bar> * u"
    using u by (simp add: abs_mult)
  also have "\<dots> \<le> (1 / 2) * u"
    using u round_half_even_error [of "x / u"] by (intro mult_right_mono) simp_all
  also have "\<dots> = 2 powr (of_int \<lfloor>log 2 \<bar>x\<bar>\<rfloor> - 53)"
  proof -
    have "(2::real) powr (of_int \<lfloor>log 2 \<bar>x\<bar>\<rfloor> - 52)
            = 2 powr (of_int \<lfloor>log 2 \<bar>x\<bar>\<rfloor> - 53) * 2 powr 1"
      unfolding powr_add [symmetric] by simp
    then show ?thesis by (simp add: u_def)
  qed
  finally show ?thesis .
qed

lemma double_error_relative: "\<bar>double x - x\<bar> \<le> \<bar>x\<bar> / 2 ^ 53"
proof (cases "x = 0")
  case True
  then show ?thesis by (simp add: double_def)
next
  case False
  have "(2::real) powr (of_int \<lfloor>log 2 \<bar>x\<bar>\<rfloor>) \<le> 2 powr (log 2 \<bar>x\<bar>)"
    by (intro powr_mono) simp_all
  also have "\<dots> = \<bar>x\<bar>" using False by simp
  finally have e: "2 powr (of_int \<lfloor>log 2 \<bar>x\<bar>\<rfloor>) \<le> \<bar>x\<bar>" .
  have p53: "(2::real) powr 53 = 2 ^ 53"
    using powr_realpow [of "2::real" 53] by simp
  have "(2::real) powr (of_int \<lfloor>log 2 \<bar>x\<bar>\<rfloor> - 53)
          = 2 powr (of_int \<lfloor>log 2 \<bar>x\<bar>\<rfloor>) / 2 ^ 53"
    unfolding powr_diff p53 ..
  also have "\<dots> \<le> \<bar>x\<bar> / 2 ^ 53"
    using e by (intro divide_right_mono) simp_all
  finally show ?thesis using double_error_exponent [OF False] by linarith
qed

lemma double_error_small:
  assumes "\<bar>x\<bar> < 2 ^ 34"
  shows "\<bar>double x - x\<bar> \<le> 1 / 2 ^ 20"
proof (cases "x = 0")
  case True
  then show ?thesis by (simp add: double_def)
next
  case False
  have "log 2 \<bar>x\<bar> < log 2 ((2::real) ^ 34)"
    using assms False by (intro log_less) simp_all
  also have "log 2 ((2::real) ^ 34) = 34"
    using log_pow_cancel [of "2::real" 34] by simp
  finally have "\<lfloor>log 2 \<bar>x\<bar>\<rfloor> \<le> 33" by linarith
  then have "of_int \<lfloor>log 2 \<bar>x\<bar>\<rfloor> - 53 \<le> (- 20 :: real)" by linarith
  then have "(2::real) powr (of_int \<lfloor>log 2 \<bar>x\<bar>\<rfloor> - 53) \<le> 2 powr (- 20 :: real)"
    by (intro powr_mono) simp_all
  also have "(2::real) powr (- 20 :: real) = 1 / 2 ^ 20"
  proof -
    have p20: "(2::real) powr 20 = 2 ^ 20"
      using powr_realpow [of "2::real" 20] by simp
    have "(2::real) powr (- 20) = 1 / 2 powr 20" by (rule powr_minus_divide)
    then show ?thesis by (simp only: p20)
  qed
  finally show ?thesis using double_error_exponent [OF False] by linarith
qed

lemma double_of_int:
  assumes "\<bar>m\<bar> < 2 ^ 53"
  shows "double (of_int m) = of_int m"
proof (cases "m = 0")
  case True
  then show ?thesis by (simp add: double_def)
next
  case False
  define e where "e = \<lfloor>log 2 \<bar>of_int m :: real\<bar>\<rfloor>"
  have m1: "1 \<le> \<bar>of_int m :: real\<bar>" using False by (simp flip: of_int_abs)
  have "0 \<le> log 2 \<bar>of_int m :: real\<bar>" using m1 by simp
  then have e0: "0 \<le> e" by (simp add: e_def)
  have "\<bar>of_int m :: real\<bar> < 2 ^ 53"
    using assms by (metis of_int_abs of_int_less_numeral_power_cancel_iff)
  then have "log 2 \<bar>of_int m :: real\<bar> < log 2 ((2::real) ^ 53)"
    using m1 by (intro log_less) simp_all
  also have "log 2 ((2::real) ^ 53) = 53"
    using log_pow_cancel [of "2::real" 53] by simp
  finally have e52: "e \<le> 52" unfolding e_def by linarith
  define k where "k = nat (52 - e)"
  have ke: "of_int e - 52 = - real k" using e52 by (simp add: k_def)
  have u: "(2::real) powr (of_int e - 52) = 1 / 2 ^ k"
  proof -
    have "(2::real) powr (- real k) = 1 / 2 powr (real k)" by (rule powr_minus_divide)
    also have "(2::real) powr (real k) = 2 ^ k" by (rule powr_realpow) simp
    finally show ?thesis unfolding ke .
  qed
  have q: "of_int m / (1 / 2 ^ k) = (of_int (m * 2 ^ k) :: real)" by simp
  have "double (of_int m) = of_int (round_half_even (of_int m / (1 / 2 ^ k))) * (1 / 2 ^ k)"
    using False by (simp add: double_def Let_def e_def [symmetric] u)
  also have "\<dots> = of_int (m * 2 ^ k) * (1 / 2 ^ k)"
    unfolding q round_half_even_of_int ..
  also have "\<dots> = of_int m" by simp
  finally show ?thesis .
qed

lemma round_half_even_le: "r \<le> of_int N \<Longrightarrow> round_half_even r \<le> N"
proof -
  assume a: "r \<le> of_int N"
  have f: "of_int \<lfloor>r\<rfloor> \<le> r" "r < of_int \<lfloor>r\<rfloor> + 1" by linarith+
  have "\<lfloor>r\<rfloor> \<le> N" using a by (simp add: floor_le_iff)
  then consider "\<lfloor>r\<rfloor> + 1 \<le> N" | "\<lfloor>r\<rfloor> = N" by linarith
  then show ?thesis
  proof cases
    case 1
    then show ?thesis by (simp add: round_half_even_def Let_def)
  next
    case 2
    then have "r = of_int N" using a f by simp
    then show ?thesis by (simp add: round_half_even_of_int)
  qed
qed

lemma round_half_even_near:
  assumes "\<bar>r - of_int N\<bar> < 1 / 2"
  shows "round_half_even r = N"
proof -
  have e: "\<bar>of_int (round_half_even r) - r\<bar> \<le> 1 / 2" by (rule round_half_even_error)
  have "\<bar>(of_int (round_half_even r) :: real) - of_int N\<bar> < 1" using assms e by linarith
  then have "\<bar>(of_int (round_half_even r - N) :: real)\<bar> < 1" by simp
  then have "\<bar>round_half_even r - N\<bar> < 1"
    by (metis of_int_abs of_int_less_1_iff)
  then show ?thesis by linarith
qed

lemma floor_log2_eq:
  assumes "2 powr (of_int e) \<le> \<bar>x\<bar>" "\<bar>x\<bar> < 2 powr (of_int e + 1)"
  shows "\<lfloor>log 2 \<bar>x\<bar>\<rfloor> = e"
proof -
  have p: "0 < \<bar>x\<bar>" using assms(1) less_le_trans [OF double_unit_pos] by blast
  have "of_int e \<le> log 2 \<bar>x\<bar>" using assms(1) p by (simp add: le_log_iff)
  moreover have "log 2 \<bar>x\<bar> < of_int e + 1" using assms(2) p by (simp add: log_less_iff)
  ultimately show ?thesis by linarith
qed

lemma double_unit_down:
  assumes "e \<le> 52"
  shows "(2::real) powr (of_int e - 52) = 1 / 2 ^ nat (52 - e)"
proof -
  have ke: "of_int e - 52 = - real (nat (52 - e))" using assms by simp
  have "(2::real) powr (- real (nat (52 - e))) = 1 / 2 powr (real (nat (52 - e)))"
    by (rule powr_minus_divide)
  also have "(2::real) powr (real (nat (52 - e))) = 2 ^ nat (52 - e)" by (rule powr_realpow) simp
  finally show ?thesis unfolding ke .
qed

lemma double_unfold:
  assumes "x \<noteq> 0" "\<lfloor>log 2 \<bar>x\<bar>\<rfloor> = e" "2 powr (of_int e - 52) = u"
  shows "double x = of_int (round_half_even (x / u)) * u"
  using assms unfolding double_def Let_def by auto

lemma double_value:
  assumes "2 powr (of_int e) \<le> \<bar>x\<bar>" "\<bar>x\<bar> < 2 powr (of_int e + 1)" "e \<le> 52"
    and "\<bar>x * 2 ^ nat (52 - e) - of_int N\<bar> < 1 / 2"
  shows "double x = of_int N / 2 ^ nat (52 - e)"
proof -
  have fl: "\<lfloor>log 2 \<bar>x\<bar>\<rfloor> = e" using assms(1,2) by (rule floor_log2_eq)
  have u: "(2::real) powr (of_int e - 52) = 1 / 2 ^ nat (52 - e)"
    using assms(3) by (rule double_unit_down)
  have "0 < \<bar>x\<bar>" using assms(1) less_le_trans [OF double_unit_pos] by blast
  then have ne: "x \<noteq> 0" by simp
  have "x / (1 / 2 ^ nat (52 - e)) = x * 2 ^ nat (52 - e)" by simp
  then have "\<bar>x / (1 / 2 ^ nat (52 - e)) - of_int N\<bar> < 1 / 2" using assms(4) by simp
  then have r: "round_half_even (x / (1 / 2 ^ nat (52 - e))) = N" by (rule round_half_even_near)
  have "double x = of_int (round_half_even (x / (1 / 2 ^ nat (52 - e)))) * (1 / 2 ^ nat (52 - e))"
    using ne fl u by (rule double_unfold)
  then show ?thesis unfolding r by simp
qed

lemma double_le_int:
  assumes "0 < x" "x \<le> of_int k" "k < 2 ^ 53"
  shows "double x \<le> of_int k"
proof -
  define e where "e = \<lfloor>log 2 \<bar>x\<bar>\<rfloor>"
  have "real_of_int k < 2 ^ 53"
    using assms(3) by (metis of_int_less_numeral_power_cancel_iff)
  then have "x < 2 ^ 53" using assms(2) by linarith
  then have "log 2 x < log 2 ((2::real) ^ 53)"
    using assms(1) by (intro log_less) simp_all
  also have "log 2 ((2::real) ^ 53) = 53"
    using log_pow_cancel [of "2::real" 53] by simp
  finally have e52: "e \<le> 52" unfolding e_def using assms(1) by (simp add: floor_le_iff)
  define j where "j = nat (52 - e)"
  have u: "(2::real) powr (of_int e - 52) = 1 / 2 ^ j"
    unfolding j_def using e52 by (rule double_unit_down)
  have "x \<noteq> 0" using assms(1) by simp
  then have d: "double x = of_int (round_half_even (x / (1 / 2 ^ j))) * (1 / 2 ^ j)"
    using e_def [symmetric] u by (rule double_unfold)
  have "x / (1 / 2 ^ j) \<le> of_int (k * 2 ^ j)" using assms(2) by (simp add: field_simps)
  then have "round_half_even (x / (1 / 2 ^ j)) \<le> k * 2 ^ j" by (rule round_half_even_le)
  then have "real_of_int (round_half_even (x / (1 / 2 ^ j))) \<le> real_of_int (k * 2 ^ j)"
    by (rule of_int_le_iff [THEN iffD2])
  then have "real_of_int (round_half_even (x / (1 / 2 ^ j))) * (1 / 2 ^ j)
               \<le> real_of_int (k * 2 ^ j) * (1 / 2 ^ j)"
    by (intro mult_right_mono) simp_all
  then show ?thesis unfolding d by simp
qed

lemma double_numeral: "\<bar>numeral k :: int\<bar> < 2 ^ 53 \<Longrightarrow> double (numeral k) = numeral k"
  using double_of_int [of "numeral k"] by simp

lemma float_seven_tenths_iff:
  fixes n c :: nat
  assumes "n \<le> 1000"
  shows "(double (real n * double_0_7) \<le> real c) \<longleftrightarrow> (7 * n \<le> 10 * c)"
proof -
  define x where "x = real n * double_0_7"
  have x0: "0 \<le> x" by (simp add: x_def double_0_7_def)
  have xn: "x \<le> 7 / 10 * real n" by (simp add: x_def double_0_7_def)
  have xl: "7 / 10 * real n - 1 / 2 ^ 40 \<le> x"
    using assms by (simp add: x_def double_0_7_def)
  have x700: "x \<le> 700" using xn assms by simp
  have err: "\<bar>double x - x\<bar> \<le> 1 / 2 ^ 40"
  proof -
    have "\<bar>double x - x\<bar> \<le> \<bar>x\<bar> / 2 ^ 53" by (rule double_error_relative)
    also have "\<dots> \<le> 700 / 2 ^ 53" using x0 x700 by (intro divide_right_mono) simp_all
    also have "\<dots> \<le> 1 / 2 ^ 40" by simp
    finally show ?thesis .
  qed
  consider (lt) "10 * c + 1 \<le> 7 * n" | (eq) "10 * c = 7 * n" | (gt) "7 * n + 1 \<le> 10 * c"
    by linarith
  then show ?thesis
  proof cases
    case lt
    then have "real (10 * c + 1) \<le> real (7 * n)" by (rule of_nat_mono)
    then have "real c + 1 / 10 \<le> 7 / 10 * real n" by simp
    moreover have "(1::real) / 2 ^ 40 + 1 / 2 ^ 40 < 1 / 10" by simp
    ultimately have "real c < double x" using xl err by linarith
    then show ?thesis using lt by (simp add: x_def)
  next
    case eq
    then have "real (10 * c) = real (7 * n)" by simp
    then have rc: "real c = 7 / 10 * real n" by simp
    have "double x \<le> real c"
    proof (cases "x = 0")
      case True
      then show ?thesis by (simp add: double_def)
    next
      case False
      have "double x \<le> of_int (int c)"
      proof (rule double_le_int)
        show "0 < x" using False x0 by simp
        show "x \<le> real_of_int (int c)" using xn rc by simp
        have "c \<le> 700" using eq assms by linarith
        then show "int c < 2 ^ 53" by simp
      qed
      then show ?thesis by simp
    qed
    then show ?thesis using eq by (simp add: x_def)
  next
    case gt
    then have "real (7 * n + 1) \<le> real (10 * c)" by (rule of_nat_mono)
    then have "7 / 10 * real n + 1 / 10 \<le> real c" by simp
    moreover have "(1::real) / 2 ^ 40 < 1 / 10" by simp
    ultimately have "double x \<le> real c" using xn err by linarith
    then show ?thesis using gt by (simp add: x_def)
  qed
qed

lemma double_643_plus: "double (643 + (57 - 1 / 2 ^ 47)) = 700"
  using double_value [of 9 "643 + (57 - 1 / 2 ^ 47)" "700 * 2 ^ 43"] by simp

lemma double_zero: "double 0 = 0"
  by (simp add: double_def)

lemma double_one: "double 1 = 1"
  using double_of_int [of 1] by simp

lemma double_neg_numeral:
  "\<bar>numeral k :: int\<bar> < 2 ^ 53 \<Longrightarrow> double (- numeral k) = - numeral k"
  using double_of_int [of "- numeral k"] by simp

text \<open>
  The float literal \<open>0.7\<close> is the double nearest to 7/10, and the change percents that
  \<open>compare_hashes\<close> computes for 7 of 10, 83 of 100 and 57 of 100 changed blocks are 70.0,
  83.0 and the double next below 57.
\<close>

lemma double_0_7_nearest: "double (7 / 10) = double_0_7"
  using double_value [of "- 1" "7 / 10" 6305039478318694] by (simp add: double_0_7_def)

lemma double_7_of_10: "double (double (7 / 10) * 100) = 70"
proof -
  have a: "double (7 / 10) = 6305039478318694 / 2 ^ 53"
    using double_value [of "- 1" "7 / 10" 6305039478318694] by simp
  have b: "double (6305039478318694 / 2 ^ 53 * 100) = 70"
    using double_value [of 6 "6305039478318694 / 2 ^ 53 * 100" "70 * 2 ^ 46"] by simp
  show ?thesis unfolding a b ..
qed

lemma double_83_of_100: "double (double (83 / 100) * 100) = 83"
proof -
  have a: "double (83 / 100) = 7475975381435023 / 2 ^ 53"
    using double_value [of "- 1" "83 / 100" 7475975381435023] by simp
  have b: "double (7475975381435023 / 2 ^ 53 * 100) = 83"
    using double_value [of 6 "7475975381435023 / 2 ^ 53 * 100" "83 * 2 ^ 46"] by simp
  show ?thesis unfolding a b ..
qed

lemma double_57_of_100: "double (double (57 / 100) * 100) = 57 - 1 / 2 ^ 47"
proof -
  have a: "double (57 / 100) = 5134103575202365 / 2 ^ 53"
    using double_value [of "- 1" "57 / 100" 5134103575202365] by simp
  have b: "double (5134103575202365 / 2 ^ 53 * 100) = 57 - 1 / 2 ^ 47"
    using double_value [of 5 "5134103575202365 / 2 ^ 53 * 100" 8022036836253695] by simp
  show ?thesis unfolding a b ..
qed

lemma elapsed_exceeds_timeout_iff:
  fixes x T :: int
  assumes "\<bar>T\<bar> < 2 ^ 34"
  shows "(real_of_int T < double (real_of_int x / 1000000)) \<longleftrightarrow> (T * 1000000 < x)"
proof -
  define q :: real where "q = real_of_int x / 1000000"
  have Tb: "\<bar>real_of_int T\<bar> \<le> 2 ^ 34 - 1"
  proof -
    have "\<bar>T\<bar> \<le> 2 ^ 34 - 1" using assms by simp
    then have "real_of_int \<bar>T\<bar> \<le> real_of_int (2 ^ 34 - 1)" by (rule of_int_le_iff [THEN iffD2])
    then show ?thesis by simp
  qed
  have small: "(1::real) / 2 ^ 20 < 1 / 1000000" by simp
  consider (eq) "x = T * 1000000" | (gt) "T * 1000000 < x" | (lt) "x < T * 1000000"
    by linarith
  then show ?thesis
  proof cases
    case eq
    have "\<bar>T\<bar> < 2 ^ 53" using assms by simp
    then have "double (real_of_int T) = real_of_int T" by (rule double_of_int)
    moreover have "real_of_int x / 1000000 = real_of_int T" using eq by simp
    ultimately show ?thesis using eq by simp
  next
    case gt
    then have "T * 1000000 + 1 \<le> x" by simp
    then have "real_of_int (T * 1000000 + 1) \<le> real_of_int x" by (rule of_int_le_iff [THEN iffD2])
    then have d: "real_of_int T + 1 / 1000000 \<le> q" by (simp add: q_def field_simps)
    have "real_of_int T < double q"
    proof (cases "\<bar>q\<bar> < 2 ^ 34")
      case True
      from double_error_small [OF True] have "q - 1 / 2 ^ 20 \<le> double q" by linarith
      then show ?thesis using d small by linarith
    next
      case False
      then have q34: "2 ^ 34 \<le> q" using d Tb by linarith
      have "q - q / 2 ^ 53 \<le> double q"
        using double_error_relative [of q] q34 by (simp add: abs_if split: if_splits)
      moreover have "(1 - 1 / 2 ^ 53) * 2 ^ 34 \<le> (1 - 1 / 2 ^ 53) * q"
        using q34 by (intro mult_left_mono) simp_all
      moreover have "(1 - 1 / 2 ^ 53) * q = q - q / 2 ^ 53" by (simp add: algebra_simps)
      moreover have "(2 ^ 34 :: real) - 1 / 2 \<le> (1 - 1 / 2 ^ 53) * 2 ^ 34" by simp
      moreover have "real_of_int T \<le> 2 ^ 34 - 1" using Tb by linarith
      ultimately show ?thesis by linarith
    qed
    then show ?thesis using gt by (simp add: q_def)
  next
    case lt
    then have "x + 1 \<le> T * 1000000" by simp
    then have "real_of_int (x + 1) \<le> real_of_int (T * 1000000)" by (rule of_int_le_iff [THEN iffD2])
    then have d: "q + 1 / 1000000 \<le> real_of_int T" by (simp add: q_def field_simps)
    have "double q < real_of_int T"
    proof (cases "\<bar>q\<bar> < 2 ^ 34")
      case True
      from double_error_small [OF True] have "double q \<le> q + 1 / 2 ^ 20" by linarith
      then show ?thesis using d small by linarith
    next
      case False
      then have q34: "q \<le> - (2 ^ 34)" using d Tb by linarith
      have "double q \<le> q + (- q) / 2 ^ 53"
        using double_error_relative [of q] q34 by (simp add: abs_if split: if_splits)
      moreover have "(1 - 1 / 2 ^ 53) * 2 ^ 34 \<le> (1 - 1 / 2 ^ 53) * (- q)"
        using q34 by (intro mult_left_mono) simp_all
      moreover have "(1 - 1 / 2 ^ 53) * (- q) = - (q + (- q) / 2 ^ 53)"
        by (simp add: algebra_simps)
      moreover have "(2 ^ 34 :: real) - 1 / 2 \<le> (1 - 1 / 2 ^ 53) * 2 ^ 34" by simp
      moreover have "- (2 ^ 34 - 1) \<le> real_of_int T" using Tb by linarith
      ultimately show ?thesis by linarith
    qed
    then show ?thesis using lt by (simp add: q_def)
  qed
qed

section \<open>Properties of the mode manager\<close>

lemma enter_update_success_state:
  assumes "enter_update_mode t0 euid tok adm T s = Inr ((True, m, k), s')"
  shows "current_mode s' = UPDATE \<and> mode_start_time s' = Some t0 \<and> mode_timeout s' = Some T"
  using assms
  by (auto simp: enter_update_mode_def generate_session_token_def record_mode_change_def Let_def
           split: if_splits sum.splits prod.splits)

lemma is_mode_expired_iff:
  assumes "mode_start_time s = Some t0" "mode_timeout s = Some T" "\<bar>T\<bar> < 2 ^ 34"
  shows "is_mode_expired now s \<longleftrightarrow> T * 1000000 < now - t0"
  using assms elapsed_exceeds_timeout_iff [OF assms(3), of "now - t0"]
  by (simp add: is_mode_expired_def total_seconds_def)

lemma get_current_mode_update:
  assumes "current_mode s = UPDATE"
  shows "fst (get_current_mode now s) = (if is_mode_expired now s then MONITOR else UPDATE)"
    and "\<not> is_mode_expired now s \<Longrightarrow> get_current_mode now s = (UPDATE, s)"
    and "is_mode_expired now s \<Longrightarrow> current_mode (snd (get_current_mode now s)) = MONITOR"
  using assms
  by (auto simp: get_current_mode_def exit_update_mode_internal_def
                 record_mode_change_def Let_def)

lemma get_current_mode_monitor:
  "current_mode s = MONITOR \<Longrightarrow> get_current_mode now s = (MONITOR, s)"
  by (simp add: get_current_mode_def)

lemma reads_monitor: "current_mode s = MONITOR \<Longrightarrow> reads ts s = s"
  by (induction ts arbitrary: s) (simp_all add: get_current_mode_monitor)

lemma reads_update:
  assumes "current_mode s = UPDATE" "mode_start_time s = Some t0" "mode_timeout s = Some T"
  shows "current_mode (reads ts s) = MONITOR \<or>
         (current_mode (reads ts s) = UPDATE \<and> mode_start_time (reads ts s) = Some t0
            \<and> mode_timeout (reads ts s) = Some T)"
  using assms
proof (induction ts arbitrary: s)
  case Nil
  then show ?case by simp
next
  case (Cons t ts)
  show ?case
  proof (cases "is_mode_expired t s")
    case True
    then have "current_mode (snd (get_current_mode t s)) = MONITOR"
      using get_current_mode_update(3) [OF Cons.prems(1)] by simp
    then show ?thesis by (simp add: reads_monitor)
  next
    case False
    then have "snd (get_current_mode t s) = s"
      using get_current_mode_update(2) [OF Cons.prems(1)] by simp
    then show ?thesis using Cons.IH [OF Cons.prems] by simp
  qed
qed

lemma enter_update_example:
  "enter_update_mode 0 0 ''tok'' ''root'' T init_auth =
     (if 0 \<le> T * 1000000 \<and> T * 1000000 \<le> datetime_max
      then Inr ((True, UpdateModeOn T, Some ''tok''),
                snd (projr (enter_update_mode 0 0 ''tok'' ''root'' T init_auth)))
      else Inl OverflowError)"
  by (simp add: enter_update_mode_def init_auth_def verify_admin_def generate_session_token_def
        add_seconds_def record_mode_change_def Let_def)

lemma enter_update_example_60:
  "enter_update_mode 0 0 ''tok'' ''root'' 60 init_auth =
        Inr ((True, UpdateModeOn 60, Some ''tok''),
             snd (projr (enter_update_mode 0 0 ''tok'' ''root'' 60 init_auth)))"
  using enter_update_example [of 60] by (simp add: datetime_max_def)

text \<open>
  C5 as the claim states it: a read at wall time \<open>\<ge>\<close> entry + T returns Monitor.  It fails
  at the boundary: Update is entered at instant 0 with timeout 60 s, and the read at exactly
  60 s still returns Update, because \<open>_is_mode_expired\<close> tests \<open>elapsed > mode_timeout\<close>.
\<close>

theorem update_deadline_boundary_counterexample:
  "\<not> isl (enter_update_mode 0 0 ''tok'' ''root'' 60 init_auth)
   \<and> fst (fst (projr (enter_update_mode 0 0 ''tok'' ''root'' 60 init_auth)))
   \<and> (0::int) + 60 * 1000000 \<le> 60000000
   \<and> fst (get_current_mode 60000000
            (snd (projr (enter_update_mode 0 0 ''tok'' ''root'' 60 init_auth)))) = UPDATE"
proof -
  define s' where "s' = snd (projr (enter_update_mode 0 0 ''tok'' ''root'' 60 init_auth))"
  have e: "enter_update_mode 0 0 ''tok'' ''root'' 60 init_auth =
        Inr ((True, UpdateModeOn 60, Some ''tok''), s')"
    unfolding s'_def by (rule enter_update_example_60)
  note st = enter_update_success_state [OF e]
  have "\<not> is_mode_expired 60000000 s'"
    using is_mode_expired_iff [of s' 0 60 60000000] st by simp
  then have "fst (get_current_mode 60000000 s') = UPDATE"
    using get_current_mode_update(1) [of s' 60000000] st by simp
  then show ?thesis by (simp add: e s'_def [symmetric])
qed

text \<open>
  C5, amended: after a successful \<open>enter_update_mode\<close> at instant \<open>t0\<close> with a timeout of
  \<open>T\<close> seconds, \<open>T\<close> below \<open>2^34\<close> in absolute value (a first entry from Monitor or an
  extension), and after any run of further mode reads and no other call, every mode read at
  a wall time strictly later than \<open>t0 + T\<close> returns Monitor, with no explicit exit call:
  each read performs the deadline check.  A read straight after the entry at a wall time
  up to and including \<open>t0 + T\<close> returns Update and changes nothing.  (The bound on \<open>T\<close> is
  where the float of the elapsed seconds still tells one microsecond past the deadline
  from the deadline.)
\<close>

theorem update_deadline_downgrade:
  assumes "enter_update_mode t0 euid tok adm T s = Inr ((True, m, k), s')"
    and "\<bar>T\<bar> < 2 ^ 34"
  shows "(T * 1000000 < now - t0 \<longrightarrow> fst (get_current_mode now (reads ts s')) = MONITOR)
       \<and> (now - t0 \<le> T * 1000000 \<longrightarrow> get_current_mode now s' = (UPDATE, s'))"
proof (intro conjI impI)
  note st = enter_update_success_state [OF assms(1)]
  {
    assume late: "T * 1000000 < now - t0"
    from st have "current_mode (reads ts s') = MONITOR \<or>
           (current_mode (reads ts s') = UPDATE \<and> mode_start_time (reads ts s') = Some t0
              \<and> mode_timeout (reads ts s') = Some T)"
      using reads_update [of s' t0 T ts] by simp
    then show "fst (get_current_mode now (reads ts s')) = MONITOR"
    proof
      assume "current_mode (reads ts s') = MONITOR"
      then show ?thesis by (simp add: get_current_mode_monitor)
    next
      assume u: "current_mode (reads ts s') = UPDATE \<and> mode_start_time (reads ts s') = Some t0
              \<and> mode_timeout (reads ts s') = Some T"
      then have "is_mode_expired now (reads ts s')"
        using is_mode_expired_iff [of "reads ts s'" t0 T now] assms(2) late by simp
      then show ?thesis
        using get_current_mode_update(1) [of "reads ts s'" now] u by simp
    qed
  }
  {
    assume early: "now - t0 \<le> T * 1000000"
    have "\<not> is_mode_expired now s'"
      using is_mode_expired_iff [of s' t0 T now] st assms(2) early by simp
    then show "get_current_mode now s' = (UPDATE, s')"
      using get_current_mode_update(2) [of s' now] st by simp
  }
qed

theorem update_deadline_downgrade_witness:
  "\<bar>60 :: int\<bar> < 2 ^ 34
   \<and> fst (get_current_mode 61000000
       (reads [1, 60000000]
          (snd (projr (enter_update_mode 0 0 ''tok'' ''root'' 60 init_auth))))) = MONITOR
   \<and> fst (get_current_mode 60000000
          (snd (projr (enter_update_mode 0 0 ''tok'' ''root'' 60 init_auth)))) = UPDATE"
proof -
  have b: "\<bar>60 :: int\<bar> < 2 ^ 34" by simp
  show ?thesis
    using b update_deadline_downgrade [OF enter_update_example_60 b, of 61000000 "[1, 60000000]"]
      update_deadline_downgrade [OF enter_update_example_60 b, of 60000000 "[]"]
    by simp
qed

text \<open>
  C6 as the claim states it: for every timeout outside [60, 3600] the entry call fails.
  \<open>enter_update_mode\<close> never looks at the range of its timeout: with a verified admin a
  timeout of 5 seconds is accepted.
\<close>

theorem enter_update_timeout_range_counterexample:
  "\<not> (60 \<le> (5::int) \<and> (5::int) \<le> 3600)
   \<and> \<not> isl (enter_update_mode 0 0 ''tok'' ''root'' 5 init_auth)
   \<and> fst (fst (projr (enter_update_mode 0 0 ''tok'' ''root'' 5 init_auth)))"
  by (simp add: enter_update_mode_def init_auth_def verify_admin_def generate_session_token_def
      add_seconds_def datetime_max_def record_mode_change_def Let_def)

text \<open>
  C6, amended: from Monitor, \<open>enter_update_mode\<close> succeeds exactly when the admin is verified
  (effective uid 0 and a user name among \<open>root\<close>, \<open>admin\<close>) and the session expiry
  \<open>now + timeout\<close> is a representable datetime; the timeout is not checked against
  [60, 3600].  On success the call returns the session token, stores the session under it
  with that expiry, sets the mode to Update and starts the deadline (start time \<open>now\<close>,
  timeout as requested).
\<close>

theorem enter_update_from_monitor:
  assumes "current_mode s = MONITOR"
  shows "((\<exists>m k s'. enter_update_mode now euid tok adm T s = Inr ((True, m, k), s'))
           \<longleftrightarrow> (euid = 0 \<and> (adm = ''root'' \<or> adm = ''admin'')
                \<and> 0 \<le> now + T * 1000000 \<and> now + T * 1000000 \<le> datetime_max))
       \<and> (\<forall>m k s'. enter_update_mode now euid tok adm T s = Inr ((True, m, k), s')
           \<longrightarrow> k = Some tok
               \<and> active_sessions s' tok
                   = Some \<lparr> user = adm, created = now, expires = now + T * 1000000 \<rparr>
               \<and> current_mode s' = UPDATE
               \<and> mode_start_time s' = Some now \<and> mode_timeout s' = Some T)"
  using assms
  by (auto simp: enter_update_mode_def generate_session_token_def record_mode_change_def Let_def
                 verify_admin_def add_seconds_def
           split: if_splits sum.splits prod.splits)

theorem enter_update_from_monitor_witness:
  "current_mode init_auth = MONITOR
   \<and> enter_update_mode 0 0 ''tok'' ''root'' 5 init_auth
       = Inr ((True, UpdateModeOn 5, Some ''tok''),
              snd (projr (enter_update_mode 0 0 ''tok'' ''root'' 5 init_auth)))
   \<and> active_sessions (snd (projr (enter_update_mode 0 0 ''tok'' ''root'' 5 init_auth))) ''tok''
       = Some \<lparr> user = ''root'', created = 0, expires = 5000000 \<rparr>
   \<and> current_mode (snd (projr (enter_update_mode 0 0 ''tok'' ''root'' 5 init_auth))) = UPDATE
   \<and> mode_timeout (snd (projr (enter_update_mode 0 0 ''tok'' ''root'' 5 init_auth))) = Some 5"
proof -
  have h: "current_mode init_auth = MONITOR" by (simp add: init_auth_def)
  define s' where "s' = snd (projr (enter_update_mode 0 0 ''tok'' ''root'' 5 init_auth))"
  have e: "enter_update_mode 0 0 ''tok'' ''root'' 5 init_auth =
        Inr ((True, UpdateModeOn 5, Some ''tok''), s')"
    unfolding s'_def using enter_update_example [of 5] by (simp add: datetime_max_def)
  have "active_sessions s' ''tok'' = Some \<lparr> user = ''root'', created = 0, expires = 5000000 \<rparr>
        \<and> current_mode s' = UPDATE \<and> mode_timeout s' = Some 5"
    using e enter_update_from_monitor [OF h, of 0 0 "''tok''" "''root''" 5] by simp
  then show ?thesis using h by (simp add: e)
qed

text \<open>
  C7: once the mode is Emergency, every call that asks for another mode (\<open>enter_init_mode\<close>,
  \<open>enter_update_mode\<close>, \<open>exit_init_mode\<close>, \<open>exit_update_mode\<close>, and \<open>exit_emergency_mode\<close>
  by a caller who is not a verified admin) returns failure and leaves the whole state,
  hence the mode Emergency, as it was; a mode read leaves the state as it was.  Only
  \<open>exit_emergency_mode\<close> by a verified admin succeeds and moves the mode to Monitor.
  (\<open>enter_emergency_mode\<close>, the unconditional transition into Emergency, asks for no other
  mode: it returns success and the mode stays Emergency.)
\<close>

theorem emergency_trap:
  assumes "current_mode s = EMERGENCY"
  shows "enter_init_mode now adm s = ((False, CannotEnterInitFrom EMERGENCY), s)
       \<and> enter_update_mode now euid tok adm T s
           = Inr ((False, CannotEnterUpdateEmergency, None), s)
       \<and> exit_init_mode now adm s = ((False, NotInInitMode), s)
       \<and> exit_update_mode now adm s = ((False, NotInUpdateMode), s)
       \<and> (\<not> verify_admin euid adm \<longrightarrow>
            exit_emergency_mode now euid adm s = ((False, NoRightsForEmergencyExit), s))
       \<and> get_current_mode now s = (EMERGENCY, s)
       \<and> fst (enter_emergency_mode now rsn s) = (True, EmergencyActivated rsn)
       \<and> current_mode (snd (enter_emergency_mode now rsn s)) = EMERGENCY
       \<and> (verify_admin euid adm \<longrightarrow>
            fst (exit_emergency_mode now euid adm s) = (True, EmergencyOff)
            \<and> current_mode (snd (exit_emergency_mode now euid adm s)) = MONITOR)"
  using assms
  by (simp add: enter_init_mode_def enter_update_mode_def exit_init_mode_def
        exit_update_mode_def exit_emergency_mode_def get_current_mode_def
        enter_emergency_mode_def record_mode_change_def Let_def)

theorem emergency_trap_witness:
  "current_mode (snd (enter_emergency_mode 7 ''burst'' init_auth)) = EMERGENCY
   \<and> fst (fst (enter_init_mode 9 ''root'' (snd (enter_emergency_mode 7 ''burst'' init_auth))))
       = False
   \<and> \<not> verify_admin 1000 ''root''
   \<and> fst (fst (exit_emergency_mode 9 1000 ''root''
                 (snd (enter_emergency_mode 7 ''burst'' init_auth)))) = False
   \<and> verify_admin 0 ''root''
   \<and> current_mode (snd (exit_emergency_mode 9 0 ''root''
                           (snd (enter_emergency_mode 7 ''burst'' init_auth)))) = MONITOR"
proof -
  have h: "current_mode (snd (enter_emergency_mode 7 ''burst'' init_auth)) = EMERGENCY"
    by (simp add: enter_emergency_mode_def Let_def)
  have v1: "\<not> verify_admin 1000 ''root''" and v2: "verify_admin 0 ''root''"
    by (simp_all add: verify_admin_def)
  show ?thesis
    using h v1 v2
      emergency_trap [OF h, of 9 "''root''" 1000 "''tok''" 60 "''again''"]
      emergency_trap [OF h, of 9 "''root''" 0 "''tok''" 60 "''again''"]
    by simp
qed

section \<open>Properties of the integrity engine\<close>

subsection \<open>The branches of \<open>check_integrity\<close>\<close>

lemma check_integrity_present:
  assumes "fs p = Some (RegularFile m c)" and "can_read euid m"
  shows "check_integrity sha256 fs euid now p ref upd e =
     (let cur = map sha256 (read_blocks (block_size e) c);
          changed_indices = fst (compare_hashes cur ref);
          cp = snd (compare_hashes cur ref);
          total = length cur;
          changed = length changed_indices
      in if changed = 0
         then Inr (\<lparr> file_path = p, change_type = NO_CHANGE, blocks_total = total,
                     blocks_changed = 0, change_percent = 0, current_hashes = cur,
                     reference_hashes = ref, changed_block_indices = [], entropy = 0,
                     message = IntegrityConfirmed \<rparr>, e)
         else if upd
         then Inr (\<lparr> file_path = p, change_type = ALLOWED_CHANGE, blocks_total = total,
                     blocks_changed = changed, change_percent = cp, current_hashes = cur,
                     reference_hashes = ref, changed_block_indices = changed_indices,
                     entropy = 0, message = AllowedInUpdateMode \<rparr>, e)
         else (let en = calculate_entropy fs euid p 1048576;
                   mod_event = \<lparr> ev_file_path = p, ev_timestamp = now,
                                 ev_blocks_changed = changed, ev_blocks_total = total,
                                 ev_change_percent = cp, ev_entropy = en \<rparr>;
                   e1 = e\<lparr> modification_history :=
                             deque_append 1000 (modification_history e) mod_event \<rparr>;
                   ct = classify_change e1 cp en
               in Inr (\<lparr> file_path = p, change_type = ct, blocks_total = total,
                         blocks_changed = changed, change_percent = cp,
                         current_hashes = cur, reference_hashes = ref,
                         changed_block_indices = changed_indices, entropy = en,
                         message = get_change_message ct cp en \<rparr>, e1)))"
proof -
  have c: "compute_file_hashes sha256 fs euid e p
     = Inr (map sha256 (read_blocks (block_size e) c), length c)"
    using assms by (simp add: compute_file_hashes_def)
  show ?thesis
    unfolding check_integrity_def c by (simp only: sum.case prod.case Let_def)
qed

lemma check_integrity_missing:
  "fs p = None \<Longrightarrow>
   check_integrity sha256 fs euid now p ref upd e =
     Inr (\<lparr> file_path = p, change_type = CRITICAL_CHANGE, blocks_total = 0,
            blocks_changed = 0, change_percent = 0, current_hashes = [],
            reference_hashes = ref, changed_block_indices = [], entropy = 0,
            message = FileDeletedOrUnavailable \<rparr>, e)"
  by (simp add: check_integrity_def compute_file_hashes_def)

lemma check_integrity_raises:
  "fs p = Some Directory \<Longrightarrow>
     check_integrity sha256 fs euid now p ref upd e = Inl (WrappedException ValueError)"
  "fs p = Some (RegularFile m c) \<Longrightarrow> \<not> can_read euid m \<Longrightarrow>
     check_integrity sha256 fs euid now p ref upd e = Inl (WrappedException PermissionError)"
  by (simp_all add: check_integrity_def compute_file_hashes_def)

lemma ci_nochange:
  assumes "fs p = Some (RegularFile m c)" and "can_read euid m"
    and "fst (compare_hashes (map sha256 (read_blocks (block_size e) c)) ref) = []"
  shows "check_integrity sha256 fs euid now p ref upd e =
     Inr (\<lparr> file_path = p, change_type = NO_CHANGE,
            blocks_total = length (read_blocks (block_size e) c),
            blocks_changed = 0, change_percent = 0,
            current_hashes = map sha256 (read_blocks (block_size e) c),
            reference_hashes = ref, changed_block_indices = [], entropy = 0,
            message = IntegrityConfirmed \<rparr>, e)"
  unfolding check_integrity_present [where fs=fs and p=p, OF assms(1,2)] Let_def using assms(3) by simp

lemma ci_allowed:
  assumes "fs p = Some (RegularFile m c)" and "can_read euid m"
    and "fst (compare_hashes (map sha256 (read_blocks (block_size e) c)) ref) \<noteq> []"
  shows "check_integrity sha256 fs euid now p ref True e =
     Inr (\<lparr> file_path = p, change_type = ALLOWED_CHANGE,
            blocks_total = length (read_blocks (block_size e) c),
            blocks_changed
              = length (fst (compare_hashes (map sha256 (read_blocks (block_size e) c)) ref)),
            change_percent = snd (compare_hashes (map sha256 (read_blocks (block_size e) c)) ref),
            current_hashes = map sha256 (read_blocks (block_size e) c),
            reference_hashes = ref,
            changed_block_indices
              = fst (compare_hashes (map sha256 (read_blocks (block_size e) c)) ref),
            entropy = 0, message = AllowedInUpdateMode \<rparr>, e)"
  unfolding check_integrity_present [where fs=fs and p=p, OF assms(1,2)] Let_def using assms(3) by simp

lemma ci_violation:
  assumes "fs p = Some (RegularFile m c)" and "can_read euid m"
    and "fst (compare_hashes (map sha256 (read_blocks (block_size e) c)) ref) \<noteq> []"
  shows "check_integrity sha256 fs euid now p ref False e =
     Inr (\<lparr> file_path = p,
            change_type = classify_change e
               (snd (compare_hashes (map sha256 (read_blocks (block_size e) c)) ref))
               (calculate_entropy fs euid p 1048576),
            blocks_total = length (read_blocks (block_size e) c),
            blocks_changed
              = length (fst (compare_hashes (map sha256 (read_blocks (block_size e) c)) ref)),
            change_percent = snd (compare_hashes (map sha256 (read_blocks (block_size e) c)) ref),
            current_hashes = map sha256 (read_blocks (block_size e) c),
            reference_hashes = ref,
            changed_block_indices
              = fst (compare_hashes (map sha256 (read_blocks (block_size e) c)) ref),
            entropy = calculate_entropy fs euid p 1048576,
            message = get_change_message
               (classify_change e
                  (snd (compare_hashes (map sha256 (read_blocks (block_size e) c)) ref))
                  (calculate_entropy fs euid p 1048576))
               (snd (compare_hashes (map sha256 (read_blocks (block_size e) c)) ref))
               (calculate_entropy fs euid p 1048576) \<rparr>,
          e\<lparr> modification_history :=
               deque_append 1000 (modification_history e)
                 \<lparr> ev_file_path = p, ev_timestamp = now,
                   ev_blocks_changed
                     = length (fst (compare_hashes (map sha256 (read_blocks (block_size e) c)) ref)),
                   ev_blocks_total = length (read_blocks (block_size e) c),
                   ev_change_percent
                     = snd (compare_hashes (map sha256 (read_blocks (block_size e) c)) ref),
                   ev_entropy = calculate_entropy fs euid p 1048576 \<rparr> \<rparr>)"
  unfolding check_integrity_present [where fs=fs and p=p, OF assms(1,2)] Let_def using assms(3)
  by (simp add: classify_change_def)

lemma classify_change_cases:
  "(classify_change e cp en = CRITICAL_CHANGE
      \<longleftrightarrow> cp \<ge> block_change_percent (ransomware_thresholds e)
          \<and> en \<ge> entropy_threshold (ransomware_thresholds e))
   \<and> (classify_change e cp en = SUSPICIOUS_CHANGE
      \<longleftrightarrow> ((cp \<ge> block_change_percent (ransomware_thresholds e))
           \<noteq> (en \<ge> entropy_threshold (ransomware_thresholds e))))
   \<and> (classify_change e cp en = UNAUTHORIZED_CHANGE
      \<longleftrightarrow> \<not> cp \<ge> block_change_percent (ransomware_thresholds e)
          \<and> \<not> en \<ge> entropy_threshold (ransomware_thresholds e))
   \<and> classify_change e cp en \<noteq> NO_CHANGE \<and> classify_change e cp en \<noteq> ALLOWED_CHANGE"
  by (auto simp: classify_change_def Let_def)

subsection \<open>The entropy of a sample\<close>

lemma count_fold_length:
  "length (foldl (\<lambda>bc b. bc[unat b := Suc (bc ! unat b)]) acc data) = length acc"
  by (induction data arbitrary: acc) simp_all

lemma count_fold_nth:
  "i < length acc \<Longrightarrow>
   foldl (\<lambda>bc (b::byte). bc[unat b := Suc (bc ! unat b)]) acc data ! i
     = acc ! i + count_list (map unat data) i"
proof (induction data arbitrary: acc)
  case Nil
  then show ?case by simp
next
  case (Cons b data)
  have "foldl (\<lambda>bc (b::byte). bc[unat b := Suc (bc ! unat b)]) (acc[unat b := Suc (acc ! unat b)]) data ! i
        = (acc[unat b := Suc (acc ! unat b)]) ! i + count_list (map unat data) i"
    using Cons.prems by (intro Cons.IH) simp
  then show ?case using Cons.prems by (simp add: nth_list_update)
qed

lemma byte_counts_eq:
  "byte_counts data = map (count_list (map unat data)) [0..<256]"
  by (rule nth_equalityI) (simp_all add: byte_counts_def count_fold_length count_fold_nth)

lemma entropy_fold:
  "foldl (\<lambda>en c. if c > 0 then en - (real c / real n) * log 2 (real c / real n) else en) a cs
     = a + sum_list (map (plogp n) cs)"
  by (induction cs arbitrary: a) (simp_all add: plogp_def)

lemma shannon_sum:
  "shannon data = (\<Sum>i<256. plogp (length data) (count_list (map unat data) i))"
proof -
  have "shannon data = sum_list (map (plogp (length data)) (byte_counts data))"
    unfolding shannon_def by (simp add: entropy_fold)
  also have "\<dots> = (\<Sum>i<256. plogp (length data) (count_list (map unat data) i))"
    by (simp add: byte_counts_eq comp_def interv_sum_list_conv_sum_set_nat lessThan_atLeast0)
  finally show ?thesis .
qed






lemma shannon_constant:
  assumes "0 < k"
  shows "shannon (replicate k b) = 0"
proof -
  have c: "count_list (map unat (replicate k b)) i = (if i = unat b then k else 0)" for i
    by (induction k) auto
  have b: "unat b \<in> {..<256::nat}"
    using unsigned_less [of b, where 'a = nat] by simp
  have "shannon (replicate k b) = (\<Sum>i<256. if i = unat b then plogp k k else 0)"
    unfolding shannon_sum c by (intro sum.cong) (simp_all add: plogp_def)
  also have "\<dots> = plogp k k" using b by (simp add: sum.delta)
  also have "\<dots> = 0" using assms by (simp add: plogp_def)
  finally show ?thesis .
qed

lemma calculate_entropy_readable:
  assumes "fs p = Some (RegularFile m c)" "can_read euid m" "c \<noteq> []" "0 < n"
  shows "calculate_entropy fs euid p n = shannon (take n c)"
proof -
  have z: "(min n (length c) = 0) = False" "can_read euid m = True"
    using assms by (simp_all add: min_def)
  have t: "take (min n (length c)) c = take n c" by (simp add: min_def)
  have ne: "(take n c = []) = False" using assms by simp
  show ?thesis
    unfolding calculate_entropy_def Let_def assms(1)
    by (simp only: option.case fs_node.case z t ne if_False not_True_eq_False)
qed





subsection \<open>Classification\<close>

lemma example_read_blocks: "read_blocks 4 [65 :: byte] = [[65]]"
  by (simp add: read_blocks.simps)

lemma example_compare: "compare_hashes [x] [] = ([0], 100)"
  by (simp add: compare_hashes_def double_one double_numeral)

lemma example_file:
  "[''/f'' \<mapsto> RegularFile 420 [65]] ''/f'' = Some (RegularFile 420 [65])" "can_read 0 420"
  by (simp_all add: can_read_def)

lemma example_entropy:
  "calculate_entropy [''/f'' \<mapsto> RegularFile 420 [65]] 0 ''/f'' 1048576 = 0"
proof -
  have "calculate_entropy [''/f'' \<mapsto> RegularFile 420 [65]] 0 ''/f'' 1048576
          = shannon (take 1048576 [65])"
    by (rule calculate_entropy_readable
          [where fs = "[''/f'' \<mapsto> RegularFile 420 [65]]" and p = "''/f''", OF example_file])
       simp_all
  also have "take 1048576 [65 :: byte] = replicate 1 65" by simp
  also have "shannon (replicate 1 65) = 0" by (rule shannon_constant) simp
  finally show ?thesis .
qed


text \<open>
  C1 as the claim states it, for every integrity check: NoChange iff zero blocks changed,
  and CriticalChange iff both thresholds are met.  A check of a path that does not exist
  takes the FileNotFoundError branch: with an empty baseline no block differs and the result
  reports zero changed blocks, yet the classification is CriticalChange, while the reported
  change percent 0 is below the threshold 70.
\<close>

theorem classification_missing_file_counterexample:
  "\<not> isl (check_integrity (map (char_of \<circ> unat)) Map.empty 0 0 ''/etc/passwd'' [] False
             (init_engine 65536 default_thresholds))
   \<and> fst (compare_hashes [] []) = []
   \<and> blocks_changed (fst (projr (check_integrity (map (char_of \<circ> unat)) Map.empty 0 0 ''/etc/passwd'' []
             False (init_engine 65536 default_thresholds)))) = 0
   \<and> change_type (fst (projr (check_integrity (map (char_of \<circ> unat)) Map.empty 0 0 ''/etc/passwd'' []
             False (init_engine 65536 default_thresholds)))) = CRITICAL_CHANGE
   \<and> \<not> (change_percent (fst (projr (check_integrity (map (char_of \<circ> unat)) Map.empty 0 0 ''/etc/passwd''
             [] False (init_engine 65536 default_thresholds))))
          \<ge> block_change_percent default_thresholds)"
  by (simp add: check_integrity_def compute_file_hashes_def compare_hashes_def
        default_thresholds_def)

text \<open>
  C1, amended: for every integrity check of a file that is present and readable, the check
  returns a result, and its classification is NoChange iff zero blocks changed;
  AllowedChange iff blocks changed and the Update-mode flag is set; otherwise CriticalChange
  iff the change percent and the entropy both reach their thresholds, SuspiciousChange iff
  exactly one does, UnauthorizedChange iff neither does.  (A check of a missing path
  returns CriticalChange with zero changed blocks.)
\<close>

theorem classification_of_present_file:
  assumes "fs p = Some (RegularFile m c)" and "can_read euid m"
  shows "\<not> isl (check_integrity sha256 fs euid now p ref upd e)
     \<and> (let r = fst (projr (check_integrity sha256 fs euid now p ref upd e));
             cur = map sha256 (read_blocks (block_size e) c);
             changed = length (fst (compare_hashes cur ref));
             cp = snd (compare_hashes cur ref);
             en = calculate_entropy fs euid p 1048576;
             bt = block_change_percent (ransomware_thresholds e);
             et = entropy_threshold (ransomware_thresholds e)
         in blocks_changed r = changed
          \<and> (change_type r = NO_CHANGE \<longleftrightarrow> changed = 0)
          \<and> (change_type r = ALLOWED_CHANGE \<longleftrightarrow> changed > 0 \<and> upd)
          \<and> (change_type r = CRITICAL_CHANGE \<longleftrightarrow> changed > 0 \<and> \<not> upd \<and> cp \<ge> bt \<and> en \<ge> et)
          \<and> (change_type r = SUSPICIOUS_CHANGE
                \<longleftrightarrow> changed > 0 \<and> \<not> upd \<and> ((cp \<ge> bt) \<noteq> (en \<ge> et)))
          \<and> (change_type r = UNAUTHORIZED_CHANGE
                \<longleftrightarrow> changed > 0 \<and> \<not> upd \<and> \<not> cp \<ge> bt \<and> \<not> en \<ge> et)
          \<and> (changed > 0 \<longrightarrow> change_percent r = cp)
          \<and> (changed > 0 \<and> \<not> upd \<longrightarrow> entropy r = en))"
proof (cases "fst (compare_hashes (map sha256 (read_blocks (block_size e) c)) ref) = []")
  case True
  show ?thesis
    unfolding ci_nochange [where fs=fs and p=p, OF assms True] Let_def
    by (simp add: True)
next
  case False
  note cc = classify_change_cases
      [of e "snd (compare_hashes (map sha256 (read_blocks (block_size e) c)) ref)"
          "calculate_entropy fs euid p 1048576"]
  show ?thesis
  proof (cases upd)
    case True
    note eq = ci_allowed [where fs=fs and p=p and now=now, OF assms False]
    show ?thesis
      using eq by (simp add: True False Let_def)
  next
    case nu: False
    have upd: "upd = False" using nu by simp
    note eq = ci_violation [where fs=fs and p=p and now=now, OF assms False]
    show ?thesis
      using eq cc by (simp add: upd False Let_def)
  qed
qed

theorem classification_of_present_file_witness:
  "[''/f'' \<mapsto> RegularFile 420 [65]] ''/f'' = Some (RegularFile 420 [65])
   \<and> can_read 0 420
   \<and> \<not> isl (check_integrity (map (char_of \<circ> unat)) [''/f'' \<mapsto> RegularFile 420 [65]] 0 5
              ''/f'' [] False (init_engine 4 default_thresholds))
   \<and> blocks_changed (fst (projr (check_integrity (map (char_of \<circ> unat))
        [''/f'' \<mapsto> RegularFile 420 [65]] 0 5 ''/f'' [] False
        (init_engine 4 default_thresholds)))) = 1
   \<and> change_type (fst (projr (check_integrity (map (char_of \<circ> unat))
        [''/f'' \<mapsto> RegularFile 420 [65]] 0 5 ''/f'' [] False
        (init_engine 4 default_thresholds)))) = SUSPICIOUS_CHANGE"
  using example_file
    classification_of_present_file
      [where fs = "[''/f'' \<mapsto> RegularFile 420 [65]]" and p = "''/f''"
         and ?sha256.0 = "map (char_of \<circ> unat)" and now = 5 and ref = "[]" and upd = False
         and e = "init_engine 4 default_thresholds",
       OF example_file]
  by (simp add: Let_def example_read_blocks example_compare example_entropy init_engine_def
        default_thresholds_def)


text \<open>
  C9: when \<open>check_integrity\<close> returns with no changed block in its result (zero blocks
  changed, or the path is missing), or was called with the Update-mode flag set, the result
  carries entropy 0 and the engine, hence the modification history, is unchanged.  Only a
  check that finds changed blocks outside Update mode computes the entropy and appends one
  event, carrying that entropy, to the window.
\<close>

theorem check_integrity_frame:
  assumes "check_integrity sha256 fs euid now p ref upd e = Inr (r, e')"
  shows "blocks_changed r = length (changed_block_indices r)
     \<and> (\<forall>m c. fs p = Some (RegularFile m c) \<longrightarrow>
           changed_block_indices r
             = fst (compare_hashes (map sha256 (read_blocks (block_size e) c)) ref))
     \<and> (changed_block_indices r = [] \<or> upd \<longrightarrow> entropy r = 0 \<and> e' = e)
     \<and> (changed_block_indices r \<noteq> [] \<and> \<not> upd \<longrightarrow>
           entropy r = calculate_entropy fs euid p 1048576
         \<and> e' = e\<lparr> modification_history :=
                     deque_append 1000 (modification_history e)
                       \<lparr> ev_file_path = p, ev_timestamp = now,
                         ev_blocks_changed = blocks_changed r,
                         ev_blocks_total = blocks_total r,
                         ev_change_percent = change_percent r,
                         ev_entropy = calculate_entropy fs euid p 1048576 \<rparr> \<rparr>)"
proof (cases "fs p")
  case None
  show ?thesis
    using assms unfolding check_integrity_missing [where fs=fs and p=p, OF None]
    by (auto simp: None)
next
  case (Some node)
  show ?thesis
  proof (cases node)
    case Directory
    then show ?thesis
      using assms Some check_integrity_raises(1) [where fs=fs and p=p] by simp
  next
    case (RegularFile m c)
    have f: "fs p = Some (RegularFile m c)" using Some RegularFile by simp
    show ?thesis
    proof (cases "can_read euid m")
      case False
      then show ?thesis
        using assms check_integrity_raises(2) [where fs=fs and p=p, OF f] by simp
    next
      case cr: True
      show ?thesis
      proof (cases "fst (compare_hashes (map sha256 (read_blocks (block_size e) c)) ref) = []")
        case True
        show ?thesis
          using assms True unfolding ci_nochange [where fs=fs and p=p, OF f cr True]
          by (auto simp: f)
      next
        case False
        show ?thesis
        proof (cases upd)
          case True
          note eq = ci_allowed [where fs=fs and p=p and now=now, OF f cr False]
          show ?thesis
            using assms eq False by (auto simp: f True)
        next
          case nu: False
          have upd: "upd = False" using nu by simp
          note eq = ci_violation [where fs=fs and p=p and now=now, OF f cr False]
          show ?thesis
            using assms False eq by (auto simp: f upd)
        qed
      qed
    qed
  qed
qed

theorem check_integrity_frame_witness:
  "snd (projr (check_integrity (map (char_of \<circ> unat)) [''/f'' \<mapsto> RegularFile 420 [65]] 0 5
              ''/f'' [] True (init_engine 4 default_thresholds)))
     = init_engine 4 default_thresholds
   \<and> entropy (fst (projr (check_integrity (map (char_of \<circ> unat))
        [''/f'' \<mapsto> RegularFile 420 [65]] 0 5 ''/f'' [] True
        (init_engine 4 default_thresholds)))) = 0
   \<and> modification_history (snd (projr (check_integrity (map (char_of \<circ> unat))
        [''/f'' \<mapsto> RegularFile 420 [65]] 0 5 ''/f'' [] False
        (init_engine 4 default_thresholds))))
       = [\<lparr> ev_file_path = ''/f'', ev_timestamp = 5, ev_blocks_changed = 1,
            ev_blocks_total = 1, ev_change_percent = 100, ev_entropy = 0 \<rparr>]"
proof -
  let ?fs = "[''/f'' \<mapsto> RegularFile 420 [65]]"
  let ?e = "init_engine 4 default_thresholds"
  let ?sha = "map (char_of \<circ> unat) :: byte list \<Rightarrow> string"
  define X where "X = check_integrity ?sha ?fs 0 5 ''/f'' [] True ?e"
  define Y where "Y = check_integrity ?sha ?fs 0 5 ''/f'' [] False ?e"
  have bs: "block_size ?e = 4" "modification_history ?e = []"
    by (simp_all add: init_engine_def)
  have ne: "fst (compare_hashes (map ?sha (read_blocks (block_size ?e) [65])) []) \<noteq> []"
    by (simp add: bs example_read_blocks example_compare)
  note ea = ci_allowed [where fs = ?fs and p = "''/f''" and now = 5, OF example_file ne]
  note ev = ci_violation [where fs = ?fs and p = "''/f''" and now = 5, OF example_file ne]
  have x: "X = Inr (fst (projr X), snd (projr X))" unfolding X_def ea by simp
  have y: "Y = Inr (fst (projr Y), snd (projr Y))" unfolding Y_def ev by simp
  have bx: "changed_block_indices (fst (projr X)) = [0]" "blocks_total (fst (projr X)) = 1"
       "blocks_changed (fst (projr X)) = 1" "change_percent (fst (projr X)) = 100"
    unfolding X_def ea by (simp_all add: bs example_read_blocks example_compare)
  have byy: "changed_block_indices (fst (projr Y)) = [0]" "blocks_total (fst (projr Y)) = 1"
       "blocks_changed (fst (projr Y)) = 1" "change_percent (fst (projr Y)) = 100"
    unfolding Y_def ev by (simp_all add: bs example_read_blocks example_compare)
  have dq: "deque_append 1000 [] ev = [ev]" for ev :: ModificationEvent
    by (simp add: deque_append_def)
  show ?thesis
    using check_integrity_frame [OF x [unfolded X_def]]
          check_integrity_frame [OF y [unfolded Y_def]]
          bx [unfolded X_def] byy [unfolded Y_def]
    by (simp add: example_entropy bs dq example_read_blocks example_compare)
qed

subsection \<open>Ransomware pattern detection\<close>

lemma add_seconds_neg:
  "add_seconds now (- tw) =
     (if 0 \<le> now - tw * 1000000 \<and> now - tw * 1000000 \<le> datetime_max
      then Inr (now - tw * 1000000) else Inl OverflowError)"
  by (auto simp: add_seconds_def Let_def)

lemma seven_tenths_exact:
  fixes n c :: nat
  shows "(0.7 * real n \<le> real c) \<longleftrightarrow> (7 * n \<le> 10 * c)"
proof -
  have "(7 * n \<le> 10 * c) \<longleftrightarrow> (real (7 * n) \<le> real (10 * c))"
    by (simp only: of_nat_le_iff)
  then show ?thesis by (simp add: algebra_simps)
qed

lemma detect_positive_iff:
  assumes "length (modification_history e) \<le> 1000"
    and tw: "tw = (case tw_opt of None \<Rightarrow> time_window (ransomware_thresholds e) | Some t \<Rightarrow> t)"
  shows "(\<not> isl (detect_ransomware_pattern py_sum now tw_opt e)
            \<and> fst (projr (detect_ransomware_pattern py_sum now tw_opt e)))
         \<longleftrightarrow> (window_representable now tw
              \<and> spec_ransomware_positive (float_mean py_sum) now tw e)"
proof (cases "window_representable now tw")
  case False
  then have "detect_ransomware_pattern py_sum now tw_opt e = Inl OverflowError"
    unfolding detect_ransomware_pattern_def Let_def tw [symmetric] add_seconds_neg
      window_representable_def
    by simp
  then show ?thesis using False by simp
next
  case True
  then have a: "add_seconds now (- tw) = Inr (now - tw * 1000000)"
    by (simp add: add_seconds_neg window_representable_def)
  define evs where
    "evs = filter (\<lambda>ev. now - tw * 1000000 \<le> ev_timestamp ev) (modification_history e)"
  define crit where
    "crit = length (filter (\<lambda>ev. ev_change_percent ev
                                    \<ge> block_change_percent (ransomware_thresholds e)
                                  \<and> ev_entropy ev \<ge> entropy_threshold (ransomware_thresholds e))
                      evs)"
  have "length evs \<le> length (modification_history e)" by (simp add: evs_def)
  then have n: "length evs \<le> 1000" using assms(1) by linarith
  have f: "(double (real (length evs) * double_0_7) \<le> real crit)
             \<longleftrightarrow> (0.7 * real (length evs) \<le> real crit)"
    unfolding float_seven_tenths_iff [OF n] seven_tenths_exact ..
  define fc where "fc = files_count (ransomware_thresholds e)"
  define avg where "avg = double (py_sum (map ev_change_percent evs) / real (length evs))"
  have d1: "isl (detect_ransomware_pattern py_sum now tw_opt e)
              \<longleftrightarrow> \<not> int (length evs) < fc \<and> length evs = 0"
    by (simp add: detect_ransomware_pattern_def Let_def tw [symmetric] a evs_def fc_def)
  have d2: "fst (projr (detect_ransomware_pattern py_sum now tw_opt e))
              \<longleftrightarrow> fc \<le> int (length evs)
                  \<and> block_change_percent (ransomware_thresholds e) \<le> avg
                  \<and> double (real (length evs) * double_0_7) \<le> real crit"
    if "\<not> int (length evs) < fc" "length evs \<noteq> 0"
    using that
    by (simp add: detect_ransomware_pattern_def Let_def tw [symmetric] a evs_def fc_def
          avg_def crit_def)
  have d3: "\<not> fst (projr (detect_ransomware_pattern py_sum now tw_opt e))"
    if "int (length evs) < fc"
    using that
    by (simp add: detect_ransomware_pattern_def Let_def tw [symmetric] a evs_def fc_def)
  have sp: "spec_ransomware_positive (float_mean py_sum) now tw e
              \<longleftrightarrow> fc \<le> int (length evs) \<and> 0 < length evs
                  \<and> block_change_percent (ransomware_thresholds e) \<le> avg
                  \<and> 0.7 * real (length evs) \<le> real crit"
    by (simp add: spec_ransomware_positive_def window_events_def Let_def float_mean_def
          evs_def fc_def avg_def crit_def)
  show ?thesis
  proof (cases "int (length evs) < fc")
    case True
    then show ?thesis using d3 sp by simp
  next
    case nlt: False
    show ?thesis
    proof (cases "length evs = 0")
      case True
      then show ?thesis using d1 nlt sp by simp
    next
      case False
      then show ?thesis
        using d1 d2 [OF nlt False] sp f \<open>window_representable now tw\<close> by simp
    qed
  qed
qed

lemma float_sum_recorded:
  "float_sum [70, 70, 70, 70, 70, 70, 70, 70, 83, v] = double (643 + v)"
  by (simp add: float_sum_def double_numeral)

lemma rounding_engine_window:
  "window_events 105000000 10 rounding_engine = modification_history rounding_engine"
  by (simp add: window_events_def rounding_engine_def recorded_event_def)

lemma rounding_engine_percents:
  "map ev_change_percent (modification_history rounding_engine)
     = [70, 70, 70, 70, 70, 70, 70, 70, 83, 57 - 1 / 2 ^ 47]"
  by (simp add: rounding_engine_def recorded_event_def)

lemma rounding_engine_critical:
  "length (filter (\<lambda>ev. ev_change_percent ev \<ge> 70 \<and> ev_entropy ev \<ge> 7.5)
             (modification_history rounding_engine)) = 9"
  by (simp add: rounding_engine_def recorded_event_def)

lemma rounding_engine_positive:
  assumes "py_sum [70, 70, 70, 70, 70, 70, 70, 70, 83, 57 - 1 / 2 ^ 47] = 700"
  shows "\<not> isl (detect_ransomware_pattern py_sum 105000000 None rounding_engine)
         \<and> fst (projr (detect_ransomware_pattern py_sum 105000000 None rounding_engine))"
proof -
  have th: "ransomware_thresholds rounding_engine = default_thresholds"
    by (simp add: rounding_engine_def)
  have l: "length (modification_history rounding_engine) = 10"
    by (simp add: rounding_engine_def)
  have m: "float_mean py_sum (map ev_change_percent (modification_history rounding_engine)) = 70"
    unfolding float_mean_def rounding_engine_percents assms by (simp add: double_numeral)
  have w: "window_representable 105000000 10"
    by (simp add: window_representable_def datetime_max_def)
  have "spec_ransomware_positive (float_mean py_sum) 105000000 10 rounding_engine"
    unfolding spec_ransomware_positive_def Let_def rounding_engine_window th
    using m l rounding_engine_critical by (simp add: default_thresholds_def)
  then show ?thesis
    using w l detect_positive_iff [of rounding_engine 10 None py_sum 105000000]
    by (simp add: th default_thresholds_def)
qed

text \<open>
  C2 as the claim states it: a positive answer if and only if the three conditions hold
  over the events of the window.  It fails for the mean: the code takes the mean in
  floats.  With the default thresholds and the ten recorded events of \<open>rounding_engine\<close>,
  all within the window, the float sum is 700.0 and the float mean 70.0, which reaches the
  threshold 70, and nine events are critical, so the code answers True; the mean of
  the ten recorded change percents is \<open>70 - 2^-47 / 10\<close>, below the threshold.
\<close>

theorem ransomware_mean_rounding_counterexample:
  "\<not> isl (detect_ransomware_pattern float_sum 105000000 None rounding_engine)
   \<and> fst (projr (detect_ransomware_pattern float_sum 105000000 None rounding_engine))
   \<and> exact_mean (map ev_change_percent (window_events 105000000 10 rounding_engine))
       < block_change_percent (ransomware_thresholds rounding_engine)
   \<and> \<not> spec_ransomware_positive exact_mean 105000000
         (time_window (ransomware_thresholds rounding_engine)) rounding_engine"
proof -
  have s: "float_sum [70, 70, 70, 70, 70, 70, 70, 70, 83, 57 - 1 / 2 ^ 47] = 700"
    unfolding float_sum_recorded by (rule double_643_plus)
  have th: "ransomware_thresholds rounding_engine = default_thresholds"
    by (simp add: rounding_engine_def)
  have m: "exact_mean (map ev_change_percent (window_events 105000000 10 rounding_engine)) < 70"
    unfolding rounding_engine_window rounding_engine_percents
    by (simp add: exact_mean_def)
  then have "\<not> spec_ransomware_positive exact_mean 105000000 10 rounding_engine"
    by (simp add: spec_ransomware_positive_def Let_def th default_thresholds_def)
  then show ?thesis
    using rounding_engine_positive [where py_sum = float_sum, OF s] m
    by (simp add: th default_thresholds_def)
qed

text \<open>
  The same answer with the compensated sum of CPython 3.12 and later: the compensation
  term is \<open>- 2^-47\<close>, and 700 plus it rounds to 700.0.
\<close>

lemma neumaier_sum_recorded:
  "neumaier_sum [70, 70, 70, 70, 70, 70, 70, 70, 83, 57 - 1 / 2 ^ 47] = 700"
proof -
  define v :: real where "v = 57 - 1 / 2 ^ 47"
  define w :: real where "w = - (1 / 2 ^ 47)"
  have s: "foldl neumaier_add (double (0 + 70), 0) [70, 70, 70, 70, 70, 70, 70, 83] = (643, 0)"
    by (simp add: neumaier_add_def Let_def double_numeral double_neg_numeral double_zero)
  have t: "double (643 + v) = 700" unfolding v_def by (rule double_643_plus)
  have c1: "double (643 - 700) = - 57" by (simp add: double_neg_numeral)
  have c2: "- 57 + v = w" by (simp add: v_def w_def)
  have c3: "double w = w"
    using double_value [of "- 47" w "- (2 ^ 52)"] by (simp add: w_def powr_minus_divide)
  have c4: "700 + w = 643 + v" by (simp add: v_def w_def)
  have v: "\<bar>v\<bar> \<le> \<bar>643 :: real\<bar>" "w \<noteq> 0" by (simp_all add: v_def w_def)
  have "neumaier_add (643, 0) v = (700, w)"
    unfolding neumaier_add_def Let_def fst_conv snd_conv t c1 c2 c3
    using v c3 by simp
  then have "foldl neumaier_add (double (0 + 70), 0) [70, 70, 70, 70, 70, 70, 70, 83, v]
               = (700, w)"
    using s by simp
  then have "neumaier_sum [70, 70, 70, 70, 70, 70, 70, 70, 83, v] = double (700 + w)"
    using v by (simp add: neumaier_sum_def)
  also have "\<dots> = 700" unfolding c4 by (rule t)
  finally show ?thesis unfolding v_def .
qed

lemma rounding_engine_positive_compensated:
  "\<not> isl (detect_ransomware_pattern neumaier_sum 105000000 None rounding_engine)
   \<and> fst (projr (detect_ransomware_pattern neumaier_sum 105000000 None rounding_engine))"
  using rounding_engine_positive [where py_sum = neumaier_sum, OF neumaier_sum_recorded] .

text \<open>
  The claim also fails for a window that starts before year 1: the three conditions hold
  over the events of the window, all the recorded events, and the call raises
  OverflowError on \<open>now - timedelta(seconds=time_window)\<close>.
\<close>

lemma detect_ransomware_pattern_window_overflow:
  "detect_ransomware_pattern py_sum 105000000 (Some 1000000000000) burst_engine
     = Inl OverflowError
   \<and> spec_ransomware_positive exact_mean 105000000 1000000000000 burst_engine"
  by (simp add: detect_ransomware_pattern_def add_seconds_def Let_def
        spec_ransomware_positive_def window_events_def burst_engine_def exact_mean_def)

text \<open>
  C2, amended: for every query on an engine whose history holds at most 1000 events (the
  bound of the deque), \<open>detect_ransomware_pattern\<close> returns a positive answer if and only
  if the window (the given one, or the configured one when none is given) starts at a
  datetime and, over the recorded events whose timestamp lies within the window, the
  count reaches the \<open>files_count\<close> threshold and is not zero, the mean change percent as
  the code computes it in floats (the builtin sum of the change percents divided by the
  count, each rounded to a double) reaches the block-change threshold, and the number of
  events that individually meet both the block-change and the entropy threshold is at
  least 0.7 times the count.  For a window that starts before year 1 the call raises
  OverflowError and answers nothing.
\<close>

theorem ransomware_detection_rule:
  assumes "length (modification_history e) \<le> 1000"
  shows "(\<not> isl (detect_ransomware_pattern py_sum now tw_opt e)
            \<and> fst (projr (detect_ransomware_pattern py_sum now tw_opt e)))
         \<longleftrightarrow> (window_representable now
                (case tw_opt of None \<Rightarrow> time_window (ransomware_thresholds e) | Some t \<Rightarrow> t)
              \<and> spec_ransomware_positive (float_mean py_sum) now
                (case tw_opt of None \<Rightarrow> time_window (ransomware_thresholds e) | Some t \<Rightarrow> t)
                e)"
  using assms by (rule detect_positive_iff) simp

theorem ransomware_detection_rule_witness:
  "length (modification_history burst_engine) \<le> 1000
   \<and> window_representable 105000000 10
   \<and> spec_ransomware_positive (float_mean float_sum) 105000000 10 burst_engine
   \<and> \<not> isl (detect_ransomware_pattern float_sum 105000000 None burst_engine)
   \<and> fst (projr (detect_ransomware_pattern float_sum 105000000 None burst_engine))
   \<and> \<not> spec_ransomware_positive (float_mean float_sum) 105000000 3 burst_engine
   \<and> \<not> (\<not> isl (detect_ransomware_pattern float_sum 105000000 (Some 3) burst_engine)
          \<and> fst (projr (detect_ransomware_pattern float_sum 105000000 (Some 3) burst_engine)))"
proof -
  have l: "length (modification_history burst_engine) \<le> 1000"
    by (simp add: burst_engine_def)
  have w: "window_representable 105000000 10"
    by (simp add: window_representable_def datetime_max_def)
  have p: "spec_ransomware_positive (float_mean float_sum) 105000000 10 burst_engine"
    by (simp add: spec_ransomware_positive_def window_events_def burst_engine_def Let_def
          float_mean_def float_sum_def double_numeral)
  have n: "\<not> spec_ransomware_positive (float_mean float_sum) 105000000 3 burst_engine"
    by (simp add: spec_ransomware_positive_def window_events_def burst_engine_def Let_def)
  have t: "time_window (ransomware_thresholds burst_engine) = 10"
    by (simp add: burst_engine_def)
  show ?thesis
    using l w p n t ransomware_detection_rule [OF l, of float_sum 105000000 None]
      ransomware_detection_rule [OF l, of float_sum 105000000 "Some 3"]
    by simp
qed

section \<open>Properties of the recovery engine\<close>










lemma lock_file_bytes [simp]: "file_bytes (lock_file fs p) q = file_bytes fs q"
  by (auto simp: lock_file_def file_bytes_def split: option.splits fs_node.splits)


lemma chmod_bytes [simp]: "file_bytes (chmod fs p m) q = file_bytes fs q"
  by (auto simp: chmod_def file_bytes_def split: option.splits fs_node.splits)








section \<open>Properties of the baseline store\<close>

lemma insert_block_hash_ok:
  assumes "\<forall>r\<in>set (block_hashes db). hr_file_id r = fid \<longrightarrow> hr_block_index r < idx"
    and "foreign_keys db \<longrightarrow> fid \<in> fr_id ` set (files db)"
  shows "\<exists>db'. insert_block_hash fid idx h db = Inr db'
           \<and> files db' = files db \<and> foreign_keys db' = foreign_keys db
           \<and> files_seq db' = files_seq db
           \<and> (\<exists>rid. block_hashes db' = block_hashes db
                 @ [\<lparr> hr_id = rid, hr_file_id = fid, hr_block_index = idx, hr_hash_value = h \<rparr>])"
proof -
  have u: "\<not> list_ex (\<lambda>r. hr_file_id r = fid \<and> hr_block_index r = idx) (block_hashes db)"
    using assms(1) by (auto simp: list_ex_iff)
  have f: "\<not> (foreign_keys db \<and> \<not> list_ex (\<lambda>r. fr_id r = fid) (files db))"
    using assms(2) by (auto simp: list_ex_iff)
  show ?thesis
    unfolding insert_block_hash_def Let_def using u f by auto
qed

lemma insert_block_hashes_ok:
  assumes "\<forall>r\<in>set (block_hashes db). hr_file_id r = fid \<longrightarrow> hr_block_index r < int k"
    and "foreign_keys db \<longrightarrow> fid \<in> fr_id ` set (files db)"
  shows "\<exists>db'. insert_block_hashes fid k hs db = Inr db'
           \<and> files db' = files db \<and> foreign_keys db' = foreign_keys db
           \<and> files_seq db' = files_seq db
           \<and> (\<exists>rows. block_hashes db' = block_hashes db @ rows
                 \<and> map hr_file_id rows = replicate (length hs) fid
                 \<and> map hr_block_index rows = map int [k ..< k + length hs]
                 \<and> map hr_hash_value rows = hs)"
  using assms
proof (induction hs arbitrary: k db)
  case Nil
  then show ?case by simp
next
  case (Cons h hs)
  from insert_block_hash_ok [OF Cons.prems(1) Cons.prems(2), of h]
  obtain db1 rid where
    i: "insert_block_hash fid (int k) h db = Inr db1"
    and f: "files db1 = files db" "foreign_keys db1 = foreign_keys db"
           "files_seq db1 = files_seq db"
    and b: "block_hashes db1 = block_hashes db
                 @ [\<lparr> hr_id = rid, hr_file_id = fid, hr_block_index = int k, hr_hash_value = h \<rparr>]"
    by blast
  have p1: "\<forall>r\<in>set (block_hashes db1). hr_file_id r = fid \<longrightarrow> hr_block_index r < int (Suc k)"
    using Cons.prems(1) b by auto
  have p2: "foreign_keys db1 \<longrightarrow> fid \<in> fr_id ` set (files db1)"
    using Cons.prems(2) f by simp
  from Cons.IH [OF p1 p2]
  obtain db' rows where
    r: "insert_block_hashes fid (Suc k) hs db1 = Inr db'"
    and f': "files db' = files db1" "foreign_keys db' = foreign_keys db1"
            "files_seq db' = files_seq db1"
    and b': "block_hashes db' = block_hashes db1 @ rows"
            "map hr_file_id rows = replicate (length hs) fid"
            "map hr_block_index rows = map int [Suc k ..< Suc k + length hs]"
            "map hr_hash_value rows = hs"
    by blast
  let ?row = "\<lparr> hr_id = rid, hr_file_id = fid, hr_block_index = int k, hr_hash_value = h \<rparr>"
  have "insert_block_hashes fid k (h # hs) db = Inr db'" using i r by simp
  moreover have "block_hashes db' = block_hashes db @ (?row # rows)" using b b' by simp
  moreover have "map hr_file_id (?row # rows) = replicate (length (h # hs)) fid"
    using b' by simp
  moreover have "map hr_block_index (?row # rows) = map int [k ..< k + length (h # hs)]"
  proof -
    have e: "[k ..< k + length (h # hs)] = k # [Suc k ..< Suc k + length hs]"
      by (simp add: upt_conv_Cons del: upt_Suc)
    show ?thesis unfolding e by (simp add: b'(3) del: upt_Suc)
  qed
  moreover have "map hr_hash_value (?row # rows) = h # hs" using b' by simp
  ultimately show ?case using f f' by metis
qed

lemma sorted_rows_hashes:
  assumes "map hr_file_id rows = replicate n fid"
    and "map hr_block_index rows = map int [0 ..< n]"
    and "\<forall>r\<in>set old. hr_file_id r \<noteq> fid"
  shows "map hr_hash_value
           (sort_key hr_block_index (filter (\<lambda>h. hr_file_id h = fid) (old @ rows)))
         = map hr_hash_value rows"
proof -
  have o: "filter (\<lambda>h. hr_file_id h = fid) old = []"
    using assms(3) by (auto simp: filter_empty_conv)
  have "\<forall>r\<in>set rows. hr_file_id r = fid"
  proof
    fix r assume "r \<in> set rows"
    then have "hr_file_id r \<in> set (map hr_file_id rows)" by simp
    then show "hr_file_id r = fid" unfolding assms(1) by simp
  qed
  then have n: "filter (\<lambda>h. hr_file_id h = fid) rows = rows"
    by (simp add: filter_id_conv)
  have "sorted (map int [0 ..< n])"
    by (simp add: sorted_map sorted_wrt_iff_nth_less)
  then have "sort_key hr_block_index rows = rows"
    using assms(2) by (intro sort_key_id_if_sorted) simp
  then show ?thesis by (simp add: o n)
qed

lemma get_file_of_rows:
  assumes "filter (\<lambda>r. fr_file_path r = p) (files db) = row # rest"
    and "map hr_hash_value
           (sort_key hr_block_index (filter (\<lambda>h. hr_file_id h = fr_id row) (block_hashes db)))
         = hs"
  shows "get_file p db =
     Some \<lparr> rec_file_path = fr_file_path row, rec_file_size = fr_file_size row,
            rec_block_size = fr_block_size row, rec_blocks_count = fr_blocks_count row,
            rec_block_hashes = hs,
            rec_created_at = fr_created_at row, rec_updated_at = fr_updated_at row,
            rec_is_trusted = (fr_is_trusted row \<noteq> 0),
            rec_backup_path = fr_backup_path row \<rparr>"
  unfolding get_file_def assms(1) using assms(2) by simp

lemma add_file_result:
  assumes "sqlite_integer fsize" "sqlite_integer bsize"
  shows "\<exists>db'. add_file now p fsize bsize hashes backup db = Inr (True, db')
        \<and> get_file p db' =
            Some \<lparr> rec_file_path = p, rec_file_size = fsize, rec_block_size = bsize,
                   rec_blocks_count = int (length hashes), rec_block_hashes = hashes,
                   rec_created_at = now, rec_updated_at = now, rec_is_trusted = True,
                   rec_backup_path = backup \<rparr>"
proof -
  define fid where "fid = next_rowid (files_seq db) (map fr_id (files db))"
  define row where
    "row = \<lparr> fr_id = fid, fr_file_path = p, fr_file_size = fsize,
             fr_block_size = bsize, fr_blocks_count = int (length hashes),
             fr_created_at = now, fr_updated_at = now, fr_is_trusted = 1,
             fr_backup_path = backup \<rparr>"
  define db1 where "db1 = delete_files_where_path p db"
  define db2 where "db2 = db1\<lparr> files := files db1 @ [row], files_seq := fid \<rparr>"
  define db3 where "db3 = delete_block_hashes_where_file_id fid db2"
  have a: "add_file now p fsize bsize hashes backup db =
      (case insert_block_hashes fid 0 hashes db3 of
           Inl e \<Rightarrow> Inl (WrappedException e)
         | Inr db4 \<Rightarrow> Inr (True, db4))"
    unfolding add_file_def Let_def db3_def db2_def db1_def row_def fid_def
    using assms by simp
  have f3: "files db3 = filter (\<lambda>r. fr_file_path r \<noteq> p) (files db) @ [row]"
    by (simp add: db3_def db2_def db1_def delete_block_hashes_where_file_id_def
          delete_files_where_path_def Let_def)
  have h3: "\<forall>r\<in>set (block_hashes db3). hr_file_id r \<noteq> fid"
    by (simp add: db3_def delete_block_hashes_where_file_id_def)
  have p1: "\<forall>r\<in>set (block_hashes db3). hr_file_id r = fid \<longrightarrow> hr_block_index r < int 0"
    using h3 by simp
  have p2: "foreign_keys db3 \<longrightarrow> fid \<in> fr_id ` set (files db3)"
    unfolding f3 by (simp add: row_def)
  from insert_block_hashes_ok [OF p1 p2, of hashes]
  obtain db4 rows where
    r: "insert_block_hashes fid 0 hashes db3 = Inr db4"
    and f4: "files db4 = files db3"
    and b4: "block_hashes db4 = block_hashes db3 @ rows"
            "map hr_file_id rows = replicate (length hashes) fid"
            "map hr_block_index rows = map int [0 ..< 0 + length hashes]"
            "map hr_hash_value rows = hashes"
    by blast
  have sel: "filter (\<lambda>r. fr_file_path r = p) (files db4) = row # []"
    unfolding f4 f3 by (simp add: row_def)
  have hs: "map hr_hash_value
           (sort_key hr_block_index (filter (\<lambda>h. hr_file_id h = fr_id row) (block_hashes db4)))
         = hashes"
  proof -
    have "fr_id row = fid" by (simp add: row_def)
    then show ?thesis
      unfolding b4(1)
      using sorted_rows_hashes [OF b4(2) _ h3] b4(3,4) by simp
  qed
  have "add_file now p fsize bsize hashes backup db = Inr (True, db4)"
    unfolding a r by simp
  moreover have "get_file p db4 =
            Some \<lparr> rec_file_path = p, rec_file_size = fsize, rec_block_size = bsize,
                   rec_blocks_count = int (length hashes), rec_block_hashes = hashes,
                   rec_created_at = now, rec_updated_at = now, rec_is_trusted = True,
                   rec_backup_path = backup \<rparr>"
    using get_file_of_rows [OF sel hs] by (simp add: row_def)
  ultimately show ?thesis by blast
qed

lemma update_file_result:
  assumes "get_file p db = Some old" and "sqlite_integer fsize"
  shows "\<exists>db'. update_file now p fsize hashes backup db = Inr (True, db')
        \<and> get_file p db' =
            Some (old\<lparr> rec_file_size := fsize, rec_blocks_count := int (length hashes),
                       rec_block_hashes := hashes, rec_updated_at := now,
                       rec_backup_path := backup \<rparr>)"
proof -
  from assms(1) obtain row rest where
    sel: "filter (\<lambda>r. fr_file_path r = p) (files db) = row # rest"
    by (auto simp: get_file_def split: list.splits)
  have old: "old = \<lparr> rec_file_path = fr_file_path row, rec_file_size = fr_file_size row,
                 rec_block_size = fr_block_size row, rec_blocks_count = fr_blocks_count row,
                 rec_block_hashes =
                   map hr_hash_value
                     (sort_key hr_block_index
                        (filter (\<lambda>h. hr_file_id h = fr_id row) (block_hashes db))),
                 rec_created_at = fr_created_at row, rec_updated_at = fr_updated_at row,
                 rec_is_trusted = (fr_is_trusted row \<noteq> 0),
                 rec_backup_path = fr_backup_path row \<rparr>"
    using assms(1) unfolding get_file_def sel by simp
  define fid where "fid = fr_id row"
  define upd :: "file_row \<Rightarrow> file_row" where
    "upd = (\<lambda>r :: file_row. if fr_id r = fid
                then r\<lparr> fr_file_size := fsize, fr_blocks_count := int (length hashes),
                       fr_updated_at := now, fr_backup_path := backup \<rparr>
                else r)"
  define db1 where "db1 = db\<lparr> files := map upd (files db) \<rparr>"
  define db2 where "db2 = delete_block_hashes_where_file_id fid db1"
  have u: "update_file now p fsize hashes backup db =
      (case insert_block_hashes fid 0 hashes db2 of
           Inl e \<Rightarrow> Inl (WrappedException e)
         | Inr db3 \<Rightarrow> Inr (True, db3))"
    unfolding update_file_def sel Let_def db2_def db1_def upd_def fid_def
    using assms(2) by simp
  have row_in: "row \<in> set (files db)"
  proof -
    have "row \<in> set (filter (\<lambda>r. fr_file_path r = p) (files db))" unfolding sel by simp
    then show ?thesis by simp
  qed
  have f2: "files db2 = map upd (files db)"
    by (simp add: db2_def db1_def delete_block_hashes_where_file_id_def)
  have h2: "\<forall>r\<in>set (block_hashes db2). hr_file_id r \<noteq> fid"
    by (simp add: db2_def delete_block_hashes_where_file_id_def)
  have p1: "\<forall>r\<in>set (block_hashes db2). hr_file_id r = fid \<longrightarrow> hr_block_index r < int 0"
    using h2 by simp
  have idp: "fr_id (upd r) = fr_id r" "fr_file_path (upd r) = fr_file_path r" for r
    by (simp_all add: upd_def)
  have p2: "foreign_keys db2 \<longrightarrow> fid \<in> fr_id ` set (files db2)"
  proof -
    have "fr_id (upd row) \<in> fr_id ` set (map upd (files db))" using row_in by simp
    then show ?thesis unfolding f2 by (simp add: idp fid_def)
  qed
  from insert_block_hashes_ok [OF p1 p2, of hashes]
  obtain db3 rows where
    r: "insert_block_hashes fid 0 hashes db2 = Inr db3"
    and f3: "files db3 = files db2"
    and b3: "block_hashes db3 = block_hashes db2 @ rows"
            "map hr_file_id rows = replicate (length hashes) fid"
            "map hr_block_index rows = map int [0 ..< 0 + length hashes]"
            "map hr_hash_value rows = hashes"
    by blast
  have "filter (\<lambda>r. fr_file_path r = p) (map upd (files db))
          = map upd (filter (\<lambda>r. fr_file_path r = p) (files db))"
    by (simp add: filter_map comp_def idp)
  then have sel3: "filter (\<lambda>r. fr_file_path r = p) (files db3) = upd row # map upd rest"
    unfolding f3 f2 sel by simp
  have hs: "map hr_hash_value
           (sort_key hr_block_index
              (filter (\<lambda>h. hr_file_id h = fr_id (upd row)) (block_hashes db3)))
         = hashes"
  proof -
    have "fr_id (upd row) = fid" by (simp add: idp fid_def)
    then show ?thesis
      unfolding b3(1)
      using sorted_rows_hashes [OF b3(2) _ h2] b3(3,4) by simp
  qed
  have "update_file now p fsize hashes backup db = Inr (True, db3)"
    unfolding u r by simp
  moreover have "get_file p db3 =
            Some (old\<lparr> rec_file_size := fsize, rec_blocks_count := int (length hashes),
                       rec_block_hashes := hashes, rec_updated_at := now,
                       rec_backup_path := backup \<rparr>)"
    using get_file_of_rows [OF sel3 hs] unfolding old by (simp add: upd_def fid_def)
  ultimately show ?thesis by blast
qed


lemma one_file_db_value:
  "one_file_db =
     \<lparr> files = [\<lparr> fr_id = 1, fr_file_path = ''/etc/passwd'', fr_file_size = 10,
                   fr_block_size = 65536, fr_blocks_count = 2, fr_created_at = 1,
                   fr_updated_at = 1, fr_is_trusted = 1, fr_backup_path = None \<rparr>],
       block_hashes =
         [\<lparr> hr_id = 1, hr_file_id = 1, hr_block_index = 0, hr_hash_value = ''h0'' \<rparr>,
          \<lparr> hr_id = 2, hr_file_id = 1, hr_block_index = 1, hr_hash_value = ''h1'' \<rparr>],
       files_seq = 1, block_hashes_seq = 2, foreign_keys = False \<rparr>"
  by (simp add: one_file_db_def add_file_def init_database_def next_rowid_def
        delete_files_where_path_def delete_block_hashes_where_file_id_def
        insert_block_hash_def Let_def sqlite_integer_def)

lemma remove_file_keeps_block_hashes_without_foreign_keys:
  assumes "\<not> foreign_keys db"
  shows "block_hashes (snd (remove_file p db)) = block_hashes db"
  using assms by (simp add: remove_file_def delete_files_where_path_def Let_def)

lemma remove_file_cascades_with_foreign_keys:
  assumes "foreign_keys db"
  shows "block_hashes_of p db (snd (remove_file p db)) = []"
  using assms
  by (auto simp: block_hashes_of_def remove_file_def delete_files_where_path_def Let_def
        filter_empty_conv)


text \<open>
  C4 at a concrete store: \<open>add_file\<close> of a file with two blocks on a new database, then
  \<open>remove_file\<close> of its path.  The call returns true and the file row is gone, but both
  block-hash rows of the file are still in \<open>block_hashes\<close>: the schema declares
  \<open>ON DELETE CASCADE\<close>, and the connection never enables foreign keys, so SQLite does not
  cascade.  (\<open>remove_file_cascades_with_foreign_keys\<close> is the same deletion on a connection
  that enforces them.)
\<close>

theorem remove_file_leaves_block_hashes:
  "fst (remove_file ''/etc/passwd'' one_file_db)
   \<and> get_file ''/etc/passwd'' (snd (remove_file ''/etc/passwd'' one_file_db)) = None
   \<and> block_hashes_of ''/etc/passwd'' one_file_db
        (snd (remove_file ''/etc/passwd'' one_file_db))
       = [\<lparr> hr_id = 1, hr_file_id = 1, hr_block_index = 0, hr_hash_value = ''h0'' \<rparr>,
          \<lparr> hr_id = 2, hr_file_id = 1, hr_block_index = 1, hr_hash_value = ''h1'' \<rparr>]"
  by (simp add: one_file_db_value remove_file_def delete_files_where_path_def
        block_hashes_of_def get_file_def Let_def)


text \<open>
  C10: \<open>add_file\<close> with a file size and a block size that SQLite can store (signed 64-bit
  integers) succeeds and leaves, under its path, exactly the record of its arguments with
  \<open>is_trusted\<close> true and \<open>created_at\<close> and \<open>updated_at\<close> the current time, whatever record
  the path had before: an untrusted file becomes trusted again and its creation time is
  lost.  \<open>update_file\<close> with such a file size on a path with a record replaces the size,
  the block count, the hashes, \<open>updated_at\<close> and the backup path, and keeps \<open>created_at\<close>
  (and \<open>is_trusted\<close>).  With a size outside that range \<open>add_file\<close> raises OverflowError,
  and so does \<open>update_file\<close> on a path with a record; nothing is stored.
\<close>

theorem add_file_resets_trust_and_creation:
  "(sqlite_integer fsize \<and> sqlite_integer bsize \<longrightarrow>
      (\<exists>db'. add_file now p fsize bsize hashes backup db = Inr (True, db')
         \<and> get_file p db' =
             Some \<lparr> rec_file_path = p, rec_file_size = fsize, rec_block_size = bsize,
                    rec_blocks_count = int (length hashes), rec_block_hashes = hashes,
                    rec_created_at = now, rec_updated_at = now, rec_is_trusted = True,
                    rec_backup_path = backup \<rparr>))
   \<and> (\<not> (sqlite_integer fsize \<and> sqlite_integer bsize) \<longrightarrow>
        add_file now p fsize bsize hashes backup db = Inl OverflowError)
   \<and> (\<forall>old. get_file p db = Some old \<longrightarrow>
        (sqlite_integer fsize \<longrightarrow>
           (\<exists>db'. update_file now p fsize hashes backup db = Inr (True, db')
              \<and> get_file p db' =
                  Some (old\<lparr> rec_file_size := fsize, rec_blocks_count := int (length hashes),
                             rec_block_hashes := hashes, rec_updated_at := now,
                             rec_backup_path := backup \<rparr>)))
        \<and> (\<not> sqlite_integer fsize \<longrightarrow>
             update_file now p fsize hashes backup db = Inl OverflowError))"
proof (intro conjI impI allI)
  assume "sqlite_integer fsize \<and> sqlite_integer bsize"
  then show "\<exists>db'. add_file now p fsize bsize hashes backup db = Inr (True, db')
         \<and> get_file p db' =
             Some \<lparr> rec_file_path = p, rec_file_size = fsize, rec_block_size = bsize,
                    rec_blocks_count = int (length hashes), rec_block_hashes = hashes,
                    rec_created_at = now, rec_updated_at = now, rec_is_trusted = True,
                    rec_backup_path = backup \<rparr>"
    using add_file_result by blast
next
  assume "\<not> (sqlite_integer fsize \<and> sqlite_integer bsize)"
  then show "add_file now p fsize bsize hashes backup db = Inl OverflowError"
    by (simp add: add_file_def)
next
  fix old
  assume "get_file p db = Some old" "sqlite_integer fsize"
  then show "\<exists>db'. update_file now p fsize hashes backup db = Inr (True, db')
              \<and> get_file p db' =
                  Some (old\<lparr> rec_file_size := fsize, rec_blocks_count := int (length hashes),
                             rec_block_hashes := hashes, rec_updated_at := now,
                             rec_backup_path := backup \<rparr>)"
    by (rule update_file_result)
next
  fix old
  assume "get_file p db = Some old" "\<not> sqlite_integer fsize"
  then show "update_file now p fsize hashes backup db = Inl OverflowError"
    by (auto simp: update_file_def get_file_def split: list.splits)
qed

theorem add_file_resets_trust_and_creation_witness:
  "get_file ''/etc/passwd'' (snd (set_trust_status ''/etc/passwd'' False one_file_db))
     = Some \<lparr> rec_file_path = ''/etc/passwd'', rec_file_size = 10, rec_block_size = 65536,
              rec_blocks_count = 2, rec_block_hashes = [''h0'', ''h1''],
              rec_created_at = 1, rec_updated_at = 1, rec_is_trusted = False,
              rec_backup_path = None \<rparr>
   \<and> get_file ''/etc/passwd''
        (snd (projr (add_file 5 ''/etc/passwd'' 12 65536 [''h2''] None
                (snd (set_trust_status ''/etc/passwd'' False one_file_db)))))
     = Some \<lparr> rec_file_path = ''/etc/passwd'', rec_file_size = 12, rec_block_size = 65536,
              rec_blocks_count = 1, rec_block_hashes = [''h2''],
              rec_created_at = 5, rec_updated_at = 5, rec_is_trusted = True,
              rec_backup_path = None \<rparr>
   \<and> get_file ''/etc/passwd''
        (snd (projr (update_file 5 ''/etc/passwd'' 12 [''h2''] None
                (snd (set_trust_status ''/etc/passwd'' False one_file_db)))))
     = Some \<lparr> rec_file_path = ''/etc/passwd'', rec_file_size = 12, rec_block_size = 65536,
              rec_blocks_count = 1, rec_block_hashes = [''h2''],
              rec_created_at = 1, rec_updated_at = 5, rec_is_trusted = False,
              rec_backup_path = None \<rparr>
   \<and> sqlite_integer 12 \<and> sqlite_integer 65536 \<and> \<not> sqlite_integer (2 ^ 63)
   \<and> add_file 5 ''/etc/passwd'' (2 ^ 63) 65536 [''h2''] None
        (snd (set_trust_status ''/etc/passwd'' False one_file_db)) = Inl OverflowError
   \<and> update_file 5 ''/etc/passwd'' (2 ^ 63) [''h2''] None
        (snd (set_trust_status ''/etc/passwd'' False one_file_db)) = Inl OverflowError"
proof -
  let ?db = "snd (set_trust_status ''/etc/passwd'' False one_file_db)"
  have i: "sqlite_integer 12" "sqlite_integer 65536" "\<not> sqlite_integer (2 ^ 63)"
    by (simp_all add: sqlite_integer_def)
  have g: "get_file ''/etc/passwd'' ?db
     = Some \<lparr> rec_file_path = ''/etc/passwd'', rec_file_size = 10, rec_block_size = 65536,
              rec_blocks_count = 2, rec_block_hashes = [''h0'', ''h1''],
              rec_created_at = 1, rec_updated_at = 1, rec_is_trusted = False,
              rec_backup_path = None \<rparr>"
    by (simp add: one_file_db_value set_trust_status_def get_file_def Let_def)
  from add_file_resets_trust_and_creation
         [where now = 5 and p = "''/etc/passwd''" and fsize = 12 and bsize = 65536
            and hashes = "[''h2'']" and backup = None and db = ?db]
  obtain db1 db2 where
    a: "add_file 5 ''/etc/passwd'' 12 65536 [''h2''] None ?db = Inr (True, db1)"
       "get_file ''/etc/passwd'' db1
          = Some \<lparr> rec_file_path = ''/etc/passwd'', rec_file_size = 12,
                   rec_block_size = 65536, rec_blocks_count = int (length [''h2'']),
                   rec_block_hashes = [''h2''], rec_created_at = 5, rec_updated_at = 5,
                   rec_is_trusted = True, rec_backup_path = None \<rparr>"
    and u: "update_file 5 ''/etc/passwd'' 12 [''h2''] None ?db = Inr (True, db2)"
       "get_file ''/etc/passwd'' db2
          = Some (\<lparr> rec_file_path = ''/etc/passwd'', rec_file_size = 10,
              rec_block_size = 65536,
              rec_blocks_count = 2, rec_block_hashes = [''h0'', ''h1''],
              rec_created_at = 1, rec_updated_at = 1, rec_is_trusted = False,
              rec_backup_path = None \<rparr>
              \<lparr> rec_file_size := 12, rec_blocks_count := int (length [''h2'']),
                          rec_block_hashes := [''h2''], rec_updated_at := 5,
                          rec_backup_path := None \<rparr>)"
    using g i by blast
  have o: "add_file 5 ''/etc/passwd'' (2 ^ 63) 65536 [''h2''] None ?db = Inl OverflowError"
    "update_file 5 ''/etc/passwd'' (2 ^ 63) [''h2''] None ?db = Inl OverflowError"
    using g i add_file_resets_trust_and_creation
         [where now = 5 and p = "''/etc/passwd''" and fsize = "2 ^ 63" and bsize = 65536
            and hashes = "[''h2'']" and backup = None and db = ?db]
    by blast+
  show ?thesis
    unfolding a(1) u(1) o using g a(2) u(2) i by simp
qed



end
